theory Spec2Isabelle
  imports Complex_Main
begin

section \<open>Python values shared by the modules\<close>

text \<open>
  Exceptions are values. An exception raised by the code under study carries what a
  caller can tell it by; an exception coming out of an external collaborator (a worker,
  a tokenizer library) is opaque and only carries a tag. Four of the constructors stand
  for a ValueError, told apart by its message: \<open>SliceStepZero\<close> and
  \<open>ExtendedSliceSize\<close> (list assignment), \<open>ContextLength\<close> (input validation,
  with the numbers its message shows) and \<open>CannotGetVocabulary\<close> (tokenizer cache).
\<close>

datatype context_length_msg =
    EmbeddingTooLong int int
  | MessagesTooLong int int
  | CompletionTooLong int int int int

datatype exn =
    AssertionError string
  | AttributeError
  | IndexError
  | SliceStepZero
  | ExtendedSliceSize nat nat
  | ContextLength context_length_msg
  | CannotGetVocabulary
  | ZeroDivisionError
  | OverflowError
  | External nat

subsection \<open>List item and slice assignment\<close>

text \<open>
  \<open>xs[i] = v\<close> on a Python list: a negative index counts from the end, an index out
  of range raises IndexError and leaves the list as it was.
\<close>

definition norm_index :: "nat \<Rightarrow> int \<Rightarrow> nat option" where
  "norm_index n i =
     (let j = (if i < 0 then i + int n else i)
      in if 0 \<le> j \<and> j < int n then Some (nat j) else None)"

definition list_setitem :: "'a list \<Rightarrow> int \<Rightarrow> 'a \<Rightarrow> exn + 'a list" where
  "list_setitem xs i v =
     (case norm_index (length xs) i of
        None \<Rightarrow> Inl IndexError
      | Some j \<Rightarrow> Inr (xs[j := v]))"

text \<open>
  A slice object \<open>slice(start, stop, step)\<close>; each part may be None. The bounds are
  clamped against the length of the list as CPython does it (\<open>PySlice_Unpack\<close>
  followed by \<open>PySlice_AdjustIndices\<close>), with the direction of the step deciding the
  value a missing or out-of-range bound takes.
\<close>

datatype slice = Slice (start: "int option") (stop: "int option") (step: "int option")

definition adjust_bound :: "int \<Rightarrow> int \<Rightarrow> int \<Rightarrow> int" where
  "adjust_bound n st i =
     (if i < 0 then
        (if i + n < 0 then (if st < 0 then - 1 else 0) else i + n)
      else if i \<ge> n then (if st < 0 then n - 1 else n)
      else i)"

definition adjust_start :: "int \<Rightarrow> int \<Rightarrow> int option \<Rightarrow> int" where
  "adjust_start n st s =
     (case s of
        None \<Rightarrow> (if st < 0 then n - 1 else 0)
      | Some i \<Rightarrow> adjust_bound n st i)"

definition adjust_stop :: "int \<Rightarrow> int \<Rightarrow> int option \<Rightarrow> int" where
  "adjust_stop n st s =
     (case s of
        None \<Rightarrow> (if st < 0 then - 1 else n)
      | Some i \<Rightarrow> adjust_bound n st i)"

definition slicelength :: "int \<Rightarrow> int \<Rightarrow> int \<Rightarrow> nat" where
  "slicelength lo hi st =
     (if st < 0 then (if hi < lo then nat ((lo - hi - 1) div (- st) + 1) else 0)
      else (if lo < hi then nat ((hi - lo - 1) div st + 1) else 0))"

text \<open>The loop of an extended slice assignment: item \<open>i\<close> goes to \<open>start + i * step\<close>.\<close>

fun assign_strided :: "'a list \<Rightarrow> int \<Rightarrow> int \<Rightarrow> 'a list \<Rightarrow> 'a list" where
  "assign_strided xs cur st [] = xs"
| "assign_strided xs cur st (v # vs) = assign_strided (xs[nat cur := v]) (cur + st) st vs"

text \<open>
  \<open>xs[sl] = vs\<close>. A step of 1 (or None) replaces the range by \<open>vs\<close>, whatever its
  length; a step of 0 raises ValueError; any other step needs \<open>vs\<close> to have exactly
  the length of the slice and overwrites in place. A failing assignment leaves the list
  as it was.
\<close>

definition list_setslice :: "'a list \<Rightarrow> slice \<Rightarrow> 'a list \<Rightarrow> exn + 'a list" where
  "list_setslice xs sl vs =
     (let n = int (length xs);
          st = (case step sl of None \<Rightarrow> 1 | Some k \<Rightarrow> k)
      in if st = 0 then Inl SliceStepZero
         else
           let lo = adjust_start n st (start sl);
               hi = adjust_stop n st (stop sl)
           in if st = 1 then
                Inr (take (nat lo) xs @ vs @ drop (nat (max lo hi)) xs)
              else if length vs \<noteq> slicelength lo hi st then
                Inl (ExtendedSliceSize (length vs) (slicelength lo hi st))
              else Inr (assign_strided xs lo st vs))"

section \<open>Token blocks (vllm/block.py)\<close>

text \<open>
  \<open>PhysicalTokenBlock\<close> is a mutable dataclass; a block table holds references to
  blocks, and several tables may hold the same block. Blocks therefore live in a store
  indexed by reference, and a table holds references. The device type comes from
  \<open>vllm.utils\<close> and is left as a type parameter. \<open>last_accessed\<close> is a float, used
  only for comparisons; it is a real number here.
\<close>

record 'd PhysicalTokenBlock =
  device :: 'd
  block_number :: int
  block_size :: int
  block_hash :: int
  num_hashed_tokens :: int
  ref_count :: int
  last_accessed :: real
  computed :: bool

definition DEFAULT_LAST_ACCESSED_TIME :: real where
  "DEFAULT_LAST_ACCESSED_TIME = - 1"

text \<open>The dataclass constructor, with the defaults of the three last fields.\<close>

definition new_PhysicalTokenBlock ::
  "'d \<Rightarrow> int \<Rightarrow> int \<Rightarrow> int \<Rightarrow> int \<Rightarrow> 'd PhysicalTokenBlock" where
  "new_PhysicalTokenBlock dev num sz h nh =
     \<lparr>device = dev, block_number = num, block_size = sz, block_hash = h,
      num_hashed_tokens = nh, ref_count = 0,
      last_accessed = DEFAULT_LAST_ACCESSED_TIME, computed = False\<rparr>"

type_synonym ref = nat

type_synonym 'd store = "ref \<Rightarrow> 'd PhysicalTokenBlock"

record BlockTable =
  blocks :: "ref list"
  block_ids :: "int list"

text \<open>
  Every method takes the store and the table it is called on and returns both as they
  are afterwards, so that what a method leaves untouched is a statement about its
  result. The method \<open>append\<close> is \<open>append_block\<close> here, the constructor is
  \<open>new_BlockTable\<close> (its loop is \<open>append_all\<close>), and \<open>__len__\<close> and
  \<open>list\<close> are \<open>len\<close> and \<open>list_of\<close>.
\<close>

definition append_block :: "'d store \<Rightarrow> BlockTable \<Rightarrow> ref \<Rightarrow> 'd store \<times> BlockTable" where
  "append_block h t b =
     (let t1 = t\<lparr>blocks := blocks t @ [b]\<rparr>;
          t2 = t1\<lparr>block_ids := block_ids t1 @ [block_number (h b)]\<rparr>
      in (h, t2))"

fun append_all :: "'d store \<Rightarrow> BlockTable \<Rightarrow> ref list \<Rightarrow> 'd store \<times> BlockTable" where
  "append_all h t [] = (h, t)"
| "append_all h t (b # bs) = (case append_block h t b of (h', t') \<Rightarrow> append_all h' t' bs)"

definition new_BlockTable :: "'d store \<Rightarrow> ref list option \<Rightarrow> 'd store \<times> BlockTable" where
  "new_BlockTable h bs =
     (let t = \<lparr>blocks = [], block_ids = []\<rparr>
      in case bs of None \<Rightarrow> (h, t) | Some l \<Rightarrow> append_all h t l)"

definition len :: "BlockTable \<Rightarrow> nat" where
  "len t = length (blocks t)"

definition list_of :: "BlockTable \<Rightarrow> ref list" where
  "list_of t = blocks t"

definition ids :: "BlockTable \<Rightarrow> int list" where
  "ids t = block_ids t"

definition reset :: "'d store \<Rightarrow> BlockTable \<Rightarrow> 'd store \<times> BlockTable" where
  "reset h t = (h, t\<lparr>blocks := [], block_ids := []\<rparr>)"

definition copy :: "'d store \<Rightarrow> BlockTable \<Rightarrow> ('d store \<times> BlockTable) \<times> BlockTable" where
  "copy h t = (case new_BlockTable h (Some (blocks t)) of (h', t') \<Rightarrow> ((h', t), t'))"

text \<open>
  \<open>__setitem__\<close> with an integer key and a block, and with a slice and an iterable of
  blocks. Each does two list assignments, one after the other, and either may raise; the
  result is the store and the table as the call leaves them, with the exception if one
  was raised.
\<close>

definition setitem_index ::
  "'d store \<Rightarrow> BlockTable \<Rightarrow> int \<Rightarrow> ref \<Rightarrow> ('d store \<times> BlockTable) \<times> exn option" where
  "setitem_index h t key block =
     (case list_setitem (blocks t) key block of
        Inl e \<Rightarrow> ((h, t), Some e)
      | Inr bl \<Rightarrow>
          let t1 = t\<lparr>blocks := bl\<rparr>
          in (case list_setitem (block_ids t1) key (block_number (h block)) of
                Inl e \<Rightarrow> ((h, t1), Some e)
              | Inr il \<Rightarrow> ((h, t1\<lparr>block_ids := il\<rparr>), None)))"

text \<open>
  The value assigned to a slice is read twice: by the assignment to the block list, and
  then by the comprehension that computes the ids. What the second reading finds depends
  on what the value is: a list of the caller's is the same both times; the table's own
  block list, which \<open>list()\<close> hands out, has by then been changed by the first
  assignment (which itself works on a copy taken before it starts); an iterator has been
  used up.
\<close>

datatype slice_value = Blocks "ref list" | OwnList | OneShot "ref list"

definition first_reading :: "BlockTable \<Rightarrow> slice_value \<Rightarrow> ref list" where
  "first_reading t v = (case v of Blocks l \<Rightarrow> l | OwnList \<Rightarrow> blocks t | OneShot l \<Rightarrow> l)"

definition second_reading :: "BlockTable \<Rightarrow> slice_value \<Rightarrow> ref list" where
  "second_reading t1 v = (case v of Blocks l \<Rightarrow> l | OwnList \<Rightarrow> blocks t1 | OneShot l \<Rightarrow> [])"

definition setitem_slice ::
  "'d store \<Rightarrow> BlockTable \<Rightarrow> slice \<Rightarrow> slice_value
     \<Rightarrow> ('d store \<times> BlockTable) \<times> exn option" where
  "setitem_slice h t key v =
     (case list_setslice (blocks t) key (first_reading t v) of
        Inl e \<Rightarrow> ((h, t), Some e)
      | Inr bl \<Rightarrow>
          let t1 = t\<lparr>blocks := bl\<rparr>
          in (case list_setslice (block_ids t1) key
                     (map (\<lambda>b. block_number (h b)) (second_reading t1 v)) of
                Inl e \<Rightarrow> ((h, t1), Some e)
              | Inr il \<Rightarrow> ((h, t1\<lparr>block_ids := il\<rparr>), None)))"

text \<open>The invariant of a table: the cached ids are the numbers of the blocks, in order.\<close>

definition ids_mirror :: "'d store \<Rightarrow> BlockTable \<Rightarrow> bool" where
  "ids_mirror h t = (ids t = map (\<lambda>b. block_number (h b)) (list_of t))"

text \<open>
  The tables a program can reach through the public operations of the class, from any
  store: construction, \<open>append\<close>, \<open>__setitem__\<close> (also when it raises), \<open>reset\<close>
  and \<open>copy\<close> (both the receiver and the new table). The parameter says which values
  the program assigns to slices.
\<close>

inductive reachable_by :: "(slice_value \<Rightarrow> bool) \<Rightarrow> 'd store \<Rightarrow> BlockTable \<Rightarrow> bool"
  for allowed :: "slice_value \<Rightarrow> bool" where
  r_new: "new_BlockTable h bs = (h', t) \<Longrightarrow> reachable_by allowed h' t"
| r_append:
    "reachable_by allowed h t \<Longrightarrow> append_block h t b = (h', t') \<Longrightarrow> reachable_by allowed h' t'"
| r_setitem_index:
    "reachable_by allowed h t \<Longrightarrow> setitem_index h t k b = ((h', t'), r)
       \<Longrightarrow> reachable_by allowed h' t'"
| r_setitem_slice:
    "reachable_by allowed h t \<Longrightarrow> allowed v \<Longrightarrow> setitem_slice h t sl v = ((h', t'), r)
       \<Longrightarrow> reachable_by allowed h' t'"
| r_reset: "reachable_by allowed h t \<Longrightarrow> reset h t = (h', t') \<Longrightarrow> reachable_by allowed h' t'"
| r_copy_self:
    "reachable_by allowed h t \<Longrightarrow> copy h t = ((h', t'), c) \<Longrightarrow> reachable_by allowed h' t'"
| r_copy_new:
    "reachable_by allowed h t \<Longrightarrow> copy h t = ((h', t'), c) \<Longrightarrow> reachable_by allowed h' c"

definition any_value :: "slice_value \<Rightarrow> bool" where
  "any_value v = True"

definition separate_list :: "slice_value \<Rightarrow> bool" where
  "separate_list v = (case v of Blocks l \<Rightarrow> True | OwnList \<Rightarrow> False | OneShot l \<Rightarrow> False)"

section \<open>Input validation of the OpenAI front end (vllm/entrypoints/openai/serving_engine.py)\<close>

text \<open>
  The request classes come from \<open>vllm.entrypoints.openai.protocol\<close>; the validation
  tells them apart with \<open>isinstance\<close> and reads \<open>max_tokens\<close>, which only the two
  completion requests have.
\<close>

datatype request =
    ChatCompletionRequest (max_tokens: "int option")
  | CompletionRequest (max_tokens: "int option")
  | DetokenizeRequest
  | EmbeddingRequest
  | TokenizeCompletionRequest
  | TokenizeChatRequest

text \<open>The \<open>isinstance\<close> tests of the validation.\<close>

definition is_EmbeddingRequest :: "request \<Rightarrow> bool" where
  "is_EmbeddingRequest r = (r = EmbeddingRequest)"

definition is_TokenizeCompletionRequest :: "request \<Rightarrow> bool" where
  "is_TokenizeCompletionRequest r = (r = TokenizeCompletionRequest)"

definition is_TokenizeChatRequest :: "request \<Rightarrow> bool" where
  "is_TokenizeChatRequest r = (r = TokenizeChatRequest)"

definition is_DetokenizeRequest :: "request \<Rightarrow> bool" where
  "is_DetokenizeRequest r = (r = DetokenizeRequest)"

datatype TextTokensPrompt = TextTokensPrompt (prompt: string) (prompt_token_ids: "int list")

record OpenAIServing =
  max_model_len :: int

definition validate_input ::
  "OpenAIServing \<Rightarrow> request \<Rightarrow> int list \<Rightarrow> string \<Rightarrow> exn + TextTokensPrompt" where
  "validate_input self request input_ids input_text =
     (let token_num = int (length input_ids) in
      if is_EmbeddingRequest request then
        (if token_num > max_model_len self then
           Inl (ContextLength (EmbeddingTooLong (max_model_len self) token_num))
         else Inr (TextTokensPrompt input_text input_ids))
      else if is_TokenizeCompletionRequest request \<or> is_TokenizeChatRequest request
              \<or> is_DetokenizeRequest request then
        Inr (TextTokensPrompt input_text input_ids)
      else
        (case max_tokens request of
           None \<Rightarrow>
             if token_num \<ge> max_model_len self then
               Inl (ContextLength (MessagesTooLong (max_model_len self) token_num))
             else Inr (TextTokensPrompt input_text input_ids)
         | Some m \<Rightarrow>
             if token_num + m > max_model_len self then
               Inl (ContextLength
                      (CompletionTooLong (max_model_len self) (m + token_num) token_num m))
             else Inr (TextTokensPrompt input_text input_ids)))"

section \<open>Requests to the engine process (vllm/engine/multiprocessing/__init__.py)\<close>

text \<open>
  The prompt, the parameters and the trace headers are values of types defined
  elsewhere; they are type parameters. An argument left out, or passed as None, is
  \<open>None\<close>. The decorator \<open>deprecate_kwargs\<close> comes from \<open>vllm.utils\<close>; it is taken
  to call the constructor with the arguments it was given, and the warning it may emit is
  outside the model.
\<close>

record ('p, 's, 'h) RPCProcessRequest =
  prompt :: 'p
  params :: 's
  request_id :: string
  trace_headers :: "'h option"
  priority :: int

definition RPCProcessRequest_init ::
  "'p option \<Rightarrow> 's option \<Rightarrow> string option \<Rightarrow> 'h option \<Rightarrow> int \<Rightarrow> 'p option
     \<Rightarrow> exn + ('p, 's, 'h) RPCProcessRequest" where
  "RPCProcessRequest_init prompt_arg params_arg request_id_arg trace_headers_arg priority_arg inputs =
     (let prompt1 = (case inputs of Some i \<Rightarrow> Some i | None \<Rightarrow> prompt_arg) in
      case prompt1 of
        None \<Rightarrow> Inl (AssertionError [])
      | Some p \<Rightarrow>
          (case params_arg of
             None \<Rightarrow> Inl (AssertionError [])
           | Some s \<Rightarrow>
               (case request_id_arg of
                  None \<Rightarrow> Inl (AssertionError [])
                | Some r \<Rightarrow>
                    Inr \<lparr>prompt = p, params = s, request_id = r,
                         trace_headers = trace_headers_arg, priority = priority_arg\<rparr>)))"

section \<open>The single-GPU executor (vllm/executor/gpu_executor.py)\<close>

text \<open>
  The configuration classes are defined in \<open>vllm.config\<close>; the records hold the
  attributes the executor reads. The device and load configurations are only passed on.
\<close>

record ParallelConfig =
  world_size :: int
  tensor_parallel_size :: int

record SchedulerConfig =
  is_multi_step :: bool

record CacheConfig =
  block_size :: int

record ModelConfig =
  max_model_len :: int

record ('dc, 'lc) configs =
  model_config :: ModelConfig
  parallel_config :: ParallelConfig
  scheduler_config :: SchedulerConfig
  device_config :: 'dc
  cache_config :: CacheConfig
  load_config :: 'lc

text \<open>
  The executor holds the six configurations and, once initialised, a reference to its
  driver worker. Workers are objects of the worker module: they live in a store (a list,
  a reference being a position), and creating a worker adds one to it. Methods keep
  their names without the leading underscore; \<open>_create_worker\<close> is
  \<open>executor_create_worker\<close>, next to the module function \<open>create_worker\<close>. What
  the logger prints is outside the model; computing what it is given is not.
\<close>

record ('dc, 'lc) GPUExecutor = "('dc, 'lc) configs" +
  driver_worker :: "ref option"

record ('dc, 'lc) worker_kwargs = "('dc, 'lc) configs" +
  local_rank :: int
  rank :: int
  distributed_init_method :: string
  is_driver_worker :: bool

record ('dc, 'lc) create_worker_kwargs = "('dc, 'lc) worker_kwargs" +
  worker_module_name :: string
  worker_class_name :: string
  worker_class_fn :: "nat option"

text \<open>
  What the executor calls and does not define: the network helpers of \<open>vllm.utils\<close>,
  the worker wrapper and the worker's methods. A call that raises gives the tag of its
  exception; a method of the worker also gives the worker as the call leaves it.
\<close>

record ('dc, 'lc, 'w) collaborators =
  get_ip :: string
  get_open_port :: int
  get_distributed_init_method :: "string \<Rightarrow> int \<Rightarrow> string"
  wrapper_init_worker :: "('dc, 'lc) create_worker_kwargs \<Rightarrow> nat + 'w"
  worker_init_device :: "'w \<Rightarrow> nat option \<times> 'w"
  worker_load_model :: "'w \<Rightarrow> nat option \<times> 'w"
  worker_determine_num_available_blocks :: "'w \<Rightarrow> (nat + int \<times> int) \<times> 'w"
  worker_initialize_cache :: "int \<Rightarrow> int \<Rightarrow> 'w \<Rightarrow> nat option \<times> 'w"

definition raised :: "nat option \<Rightarrow> exn option" where
  "raised r = map_option External r"

text \<open>
  \<open>_get_worker_kwargs\<close>. The configuration object is truthy, so \<open>is_driver_worker\<close>
  is decided by \<open>rank % tensor_parallel_size\<close>, which raises when the divisor is 0.
\<close>

definition get_worker_kwargs ::
  "('dc, 'lc, 'w) collaborators \<Rightarrow> ('dc, 'lc) GPUExecutor \<Rightarrow> int \<Rightarrow> int \<Rightarrow> string option
     \<Rightarrow> exn + ('dc, 'lc) worker_kwargs" where
  "get_worker_kwargs c self lr rk method =
     (let d = (case method of
                 None \<Rightarrow> get_distributed_init_method c (get_ip c) (get_open_port c)
               | Some m \<Rightarrow> m)
      in if tensor_parallel_size (parallel_config self) = 0 then Inl ZeroDivisionError
         else Inr \<lparr>model_config = model_config self,
                   parallel_config = parallel_config self,
                   scheduler_config = scheduler_config self,
                   device_config = device_config self,
                   cache_config = cache_config self,
                   load_config = load_config self,
                   local_rank = lr, rank = rk, distributed_init_method = d,
                   is_driver_worker =
                     (rk mod tensor_parallel_size (parallel_config self) = 0)\<rparr>)"

definition get_worker_module_and_class ::
  "('dc, 'lc) GPUExecutor \<Rightarrow> string \<times> string \<times> nat option" where
  "get_worker_module_and_class self =
     (if is_multi_step (scheduler_config self)
      then (''vllm.worker.multi_step_worker'', ''MultiStepWorker'', None)
      else (''vllm.worker.worker'', ''Worker'', None))"

definition get_create_worker_kwargs ::
  "('dc, 'lc, 'w) collaborators \<Rightarrow> ('dc, 'lc) GPUExecutor \<Rightarrow> int \<Rightarrow> int \<Rightarrow> string option
     \<Rightarrow> exn + ('dc, 'lc) create_worker_kwargs" where
  "get_create_worker_kwargs c self lr rk method =
     (case get_worker_kwargs c self lr rk method of
        Inl e \<Rightarrow> Inl e
      | Inr kw \<Rightarrow>
          (case get_worker_module_and_class self of
             (m, cn, fn) \<Rightarrow>
               Inr \<lparr>model_config = model_config kw,
                    parallel_config = parallel_config kw,
                    scheduler_config = scheduler_config kw,
                    device_config = device_config kw,
                    cache_config = cache_config kw,
                    load_config = load_config kw,
                    local_rank = local_rank kw, rank = rank kw,
                    distributed_init_method = distributed_init_method kw,
                    is_driver_worker = is_driver_worker kw,
                    worker_module_name = m, worker_class_name = cn,
                    worker_class_fn = fn\<rparr>))"

text \<open>The module function \<open>create_worker\<close>: the new worker gets the next reference.\<close>

definition create_worker ::
  "('dc, 'lc, 'w) collaborators \<Rightarrow> ('dc, 'lc) create_worker_kwargs \<Rightarrow> 'w list
     \<Rightarrow> (exn + ref) \<times> 'w list" where
  "create_worker c kw ws =
     (case wrapper_init_worker c kw of
        Inl n \<Rightarrow> (Inl (External n), ws)
      | Inr w \<Rightarrow> (Inr (length ws), ws @ [w]))"

text \<open>The method \<open>_create_worker\<close>.\<close>

definition executor_create_worker ::
  "('dc, 'lc, 'w) collaborators \<Rightarrow> ('dc, 'lc) GPUExecutor \<Rightarrow> 'w list \<Rightarrow> int \<Rightarrow> int
     \<Rightarrow> string option \<Rightarrow> (exn + ref) \<times> 'w list" where
  "executor_create_worker c self ws lr rk method =
     (case get_create_worker_kwargs c self lr rk method of
        Inl e \<Rightarrow> (Inl e, ws)
      | Inr kw \<Rightarrow> create_worker c kw ws)"

text \<open>A method call on the worker behind a reference.\<close>

definition on_worker :: "('w \<Rightarrow> 'r \<times> 'w) \<Rightarrow> 'w list \<Rightarrow> ref \<Rightarrow> 'r \<times> 'w list" where
  "on_worker f ws r = (case f (ws ! r) of (res, w') \<Rightarrow> (res, ws[r := w']))"

definition init_executor ::
  "('dc, 'lc, 'w) collaborators \<Rightarrow> ('dc, 'lc) GPUExecutor \<Rightarrow> 'w list
     \<Rightarrow> exn option \<times> ('dc, 'lc) GPUExecutor \<times> 'w list" where
  "init_executor c self ws =
     (if world_size (parallel_config self) \<noteq> 1 then
        (Some (AssertionError ''GPUExecutor only supports single GPU.''), self, ws)
      else
        (case executor_create_worker c self ws 0 0 None of
           (Inl e, ws1) \<Rightarrow> (Some e, self, ws1)
         | (Inr r, ws1) \<Rightarrow>
             let self1 = self\<lparr>driver_worker := Some r\<rparr> in
             (case on_worker (worker_init_device c) ws1 r of
                (Some n, ws2) \<Rightarrow> (Some (External n), self1, ws2)
              | (None, ws2) \<Rightarrow>
                  (case on_worker (worker_load_model c) ws2 r of
                     (res, ws3) \<Rightarrow> (raised res, self1, ws3)))))"

definition determine_num_available_blocks ::
  "('dc, 'lc, 'w) collaborators \<Rightarrow> ('dc, 'lc) GPUExecutor \<Rightarrow> 'w list
     \<Rightarrow> (exn + int \<times> int) \<times> ('dc, 'lc) GPUExecutor \<times> 'w list" where
  "determine_num_available_blocks c self ws =
     (case driver_worker self of
        None \<Rightarrow> (Inl AttributeError, self, ws)
      | Some r \<Rightarrow>
          (case on_worker (worker_determine_num_available_blocks c) ws r of
             (Inl n, ws') \<Rightarrow> (Inl (External n), self, ws')
           | (Inr p, ws') \<Rightarrow> (Inr p, self, ws')))"

text \<open>
  \<open>a / b\<close> on integers gives a float. It raises ZeroDivisionError when \<open>b\<close> is 0 and
  OverflowError when the quotient, rounded to the nearest float, is not finite, that is
  when its absolute value reaches \<open>2^1024 - 2^970\<close>. Only whether it raises matters to
  the caller below, which logs the value.
\<close>

definition true_div_raises :: "int \<Rightarrow> int \<Rightarrow> exn option" where
  "true_div_raises a b =
     (if b = 0 then Some ZeroDivisionError
      else if \<bar>a\<bar> \<ge> (2 ^ 1024 - 2 ^ 970) * \<bar>b\<bar> then Some OverflowError
      else None)"

definition initialize_cache ::
  "('dc, 'lc, 'w) collaborators \<Rightarrow> ('dc, 'lc) GPUExecutor \<Rightarrow> 'w list \<Rightarrow> int \<Rightarrow> int
     \<Rightarrow> exn option \<times> ('dc, 'lc) GPUExecutor \<times> 'w list" where
  "initialize_cache c self ws num_gpu_blocks num_cpu_blocks =
     (case true_div_raises (num_gpu_blocks * block_size (cache_config self))
             (max_model_len (model_config self)) of
        Some e \<Rightarrow> (Some e, self, ws)
      | None \<Rightarrow>
          (case driver_worker self of
             None \<Rightarrow> (Some AttributeError, self, ws)
           | Some r \<Rightarrow>
               (case on_worker (worker_initialize_cache c num_gpu_blocks num_cpu_blocks) ws r of
                  (res, ws') \<Rightarrow> (raised res, self, ws'))))"

section \<open>Caches of the grammar backend (vllm/model_executor/guided_decoding/xgrammar_decoding.py)\<close>

text \<open>\<open>str\<close> of an integer, which keys the compiler cache.\<close>

fun str_nat :: "nat \<Rightarrow> string" where
  "str_nat n =
     (if n < 10 then [char_of (48 + n)]
      else str_nat (n div 10) @ [char_of (48 + n mod 10)])"

definition str_int :: "int \<Rightarrow> string" where
  "str_int i = (if i < 0 then CHR ''-'' # str_nat (nat (- i)) else str_nat (nat i))"

text \<open>
  The vocabulary types of the grammar library, and what the code reads of the
  \<open>TokenizerInfo\<close> that the library derives from a tokenizer.
\<close>

datatype VocabType = RAW | BYTE_FALLBACK | BYTE_LEVEL

record TokenizerInfo =
  add_prefix_space :: bool
  vocab_type :: VocabType
  vocab_size :: int

record TokenizerData =
  encoded_vocab :: "string list option"
  stop_token_ids :: "int list option"
  vocab_size :: int
  vocab_type :: "VocabType option"
  add_prefix_space :: bool

text \<open>
  A tokenizer, as far as \<open>get_tokenizer_data\<close> observes it: its hash, what the library
  makes of it (or the tag of the exception), its vocabulary in the order of the
  dictionary (\<open>NoGetVocab\<close> when the call raises AttributeError), its \<open>eos_token_id\<close>
  (None when the attribute is missing or None) and whether it is a Mistral tokenizer.
\<close>

datatype vocab_result = NoGetVocab | VocabRaises nat | Vocab "(string \<times> int) list"

record tokenizer =
  py_hash :: int
  from_huggingface :: "nat + TokenizerInfo"
  get_vocab :: vocab_result
  eos_token_id :: "int option"
  is_MistralTokenizer :: bool

text \<open>The loop that places each token at its index.\<close>

fun fill_encoded_vocab :: "string list \<Rightarrow> int \<Rightarrow> (string \<times> int) list \<Rightarrow> exn + string list" where
  "fill_encoded_vocab ev n [] = Inr ev"
| "fill_encoded_vocab ev n ((token, idx) # rest) =
     (if idx < n then
        (case list_setitem ev idx token of
           Inl e \<Rightarrow> Inl e
         | Inr ev' \<Rightarrow> fill_encoded_vocab ev' n rest)
      else fill_encoded_vocab ev n rest)"

type_synonym tokenizer_cache = "int \<rightharpoonup> TokenizerData"

text \<open>The body of the branch taken when the hash is not in the cache.\<close>

definition extract_tokenizer_data :: "tokenizer \<Rightarrow> exn + TokenizerData" where
  "extract_tokenizer_data tok =
     (case from_huggingface tok of
        Inl n \<Rightarrow> Inl (External n)
      | Inr tokenizer_info \<Rightarrow>
          (case get_vocab tok of
             NoGetVocab \<Rightarrow> Inl CannotGetVocabulary
           | VocabRaises n \<Rightarrow> Inl (External n)
           | Vocab vocab_dict \<Rightarrow>
               (case fill_encoded_vocab
                       (replicate (nat (TokenizerInfo.vocab_size tokenizer_info)) [])
                       (TokenizerInfo.vocab_size tokenizer_info) vocab_dict of
                  Inl e \<Rightarrow> Inl e
                | Inr ev \<Rightarrow>
                    Inr \<lparr>encoded_vocab = Some ev,
                         stop_token_ids = map_option (\<lambda>i. [i]) (eos_token_id tok),
                         vocab_size = TokenizerInfo.vocab_size tokenizer_info,
                         vocab_type =
                           Some (if is_MistralTokenizer tok then BYTE_FALLBACK
                                 else TokenizerInfo.vocab_type tokenizer_info),
                         add_prefix_space =
                           (if is_MistralTokenizer tok then True
                            else TokenizerInfo.add_prefix_space tokenizer_info)\<rparr>)))"

definition get_tokenizer_data ::
  "tokenizer_cache \<Rightarrow> tokenizer \<Rightarrow> (exn + TokenizerData) \<times> tokenizer_cache" where
  "get_tokenizer_data cache tok =
     (let tokenizer_hash = py_hash tok in
      case cache tokenizer_hash of
        Some d \<Rightarrow> (Inr d, cache)
      | None \<Rightarrow>
          (case extract_tokenizer_data tok of
             Inl e \<Rightarrow> (Inl e, cache)
           | Inr d \<Rightarrow> (Inr d, cache(tokenizer_hash \<mapsto> d))))"

record GrammarConfig =
  tokenizer_hash :: int
  vocab_size :: int
  json_str :: "string option"
  grammar_str :: "string option"
  json_object :: "bool option"
  any_whitespace :: bool
  max_threads :: int
  tokenizer_data :: "TokenizerData option"

text \<open>
  The two constructors of the grammar library that \<open>get_compiler\<close> calls; a call
  that raises gives the tag of its exception.
\<close>

record ('ti, 'gc) xgr =
  xgr_TokenizerInfo ::
    "string list \<Rightarrow> VocabType option \<Rightarrow> int \<Rightarrow> int list option \<Rightarrow> bool \<Rightarrow> nat + 'ti"
  xgr_GrammarCompiler :: "'ti \<Rightarrow> int \<Rightarrow> nat + 'gc"

type_synonym 'gc compiler_cache = "string \<rightharpoonup> 'gc"

definition get_compiler ::
  "('ti, 'gc) xgr \<Rightarrow> 'gc compiler_cache \<Rightarrow> GrammarConfig \<Rightarrow> (exn + 'gc) \<times> 'gc compiler_cache" where
  "get_compiler x cache config =
     (let cache_key = str_int (tokenizer_hash config) in
      case cache cache_key of
        Some gc \<Rightarrow> (Inr gc, cache)
      | None \<Rightarrow>
          (case tokenizer_data config of
             None \<Rightarrow> (Inl (AssertionError []), cache)
           | Some config_data \<Rightarrow>
               (case encoded_vocab config_data of
                  None \<Rightarrow> (Inl (AssertionError []), cache)
                | Some ev \<Rightarrow>
                    (case xgr_TokenizerInfo x ev (TokenizerData.vocab_type config_data)
                            (TokenizerData.vocab_size config_data)
                            (stop_token_ids config_data)
                            (TokenizerData.add_prefix_space config_data) of
                       Inl n \<Rightarrow> (Inl (External n), cache)
                     | Inr tokenizer_info \<Rightarrow>
                         (case xgr_GrammarCompiler x tokenizer_info (max_threads config) of
                            Inl n \<Rightarrow> (Inl (External n), cache)
                          | Inr gc \<Rightarrow> (Inr gc, cache(cache_key \<mapsto> gc)))))))"

text \<open>
  A run of calls on the class-level cache: each call starts from the cache the one
  before left, whether it returned or raised.
\<close>

fun tokenizer_calls :: "tokenizer_cache \<Rightarrow> tokenizer list \<Rightarrow> tokenizer_cache" where
  "tokenizer_calls cache [] = cache"
| "tokenizer_calls cache (tok # toks) = tokenizer_calls (snd (get_tokenizer_data cache tok)) toks"

fun compiler_calls ::
  "('ti, 'gc) xgr \<Rightarrow> 'gc compiler_cache \<Rightarrow> GrammarConfig list \<Rightarrow> 'gc compiler_cache" where
  "compiler_calls x cache [] = cache"
| "compiler_calls x cache (cfg # cfgs) = compiler_calls x (snd (get_compiler x cache cfg)) cfgs"

text \<open>
  How many calls of a run ran the extraction for the key \<open>k\<close>: those that found the
  key missing, whether the extraction then returned or raised.
\<close>

fun extractions :: "tokenizer_cache \<Rightarrow> tokenizer list \<Rightarrow> int \<Rightarrow> nat" where
  "extractions cache [] k = 0"
| "extractions cache (tok # toks) k =
     (if py_hash tok = k \<and> cache k = None then 1 else 0)
     + extractions (snd (get_tokenizer_data cache tok)) toks k"

section \<open>The block pool\<close>

text \<open>
  The sources hold the block record and the block table; the pool that evicts blocks is
  described by the specification only.
\<close>

text \<open>Modelled from the spec: the errors the pool and the manager report (section 7).\<close>

datatype pool_error = PoolExhausted | NoEvictableBlock | InsufficientMemory

text \<open>
  Modelled from the spec: the PhysicalBlockPool, whose code is not among the sources. It
  is the blocks of the pool, a block's handle being its position, and the prefix-cache
  index from content hashes to handles.
\<close>

record 'd PhysicalBlockPool =
  pool_blocks :: "'d PhysicalTokenBlock list"
  prefix_index :: "int \<rightharpoonup> nat"

text \<open>
  Modelled from the spec: the unreferenced blocks of the pool, those with reference
  count 0, by handle.
\<close>

definition unreferenced :: "'d PhysicalBlockPool \<Rightarrow> nat list" where
  "unreferenced p =
     filter (\<lambda>i. ref_count (pool_blocks p ! i) = 0) [0 ..< length (pool_blocks p)]"

text \<open>
  Modelled from the spec: the choice of the block with the oldest last-access time among
  candidates; of two blocks of the same age the one met first stays.
\<close>

fun oldest :: "'d PhysicalTokenBlock list \<Rightarrow> nat \<Rightarrow> nat list \<Rightarrow> nat" where
  "oldest bs best [] = best"
| "oldest bs best (i # rest) =
     oldest bs (if last_accessed (bs ! i) < last_accessed (bs ! best) then i else best) rest"

text \<open>
  Modelled from the spec: \<open>invalidate(handle)\<close> of the PrefixCacheIndex, which removes
  the mapping of an evicted block.
\<close>

definition invalidate :: "(int \<rightharpoonup> nat) \<Rightarrow> nat \<Rightarrow> (int \<rightharpoonup> nat)" where
  "invalidate idx v = (\<lambda>h. if idx h = Some v then None else idx h)"

text \<open>
  Modelled from the spec: \<open>evict_one\<close> of the PhysicalBlockPool. It selects the block
  with reference count 0 and the oldest last-access time among the unreferenced blocks,
  removes its prefix-cache mapping and returns it; it fails with NoEvictableBlock when
  there is no unreferenced block.
\<close>

definition evict_one :: "'d PhysicalBlockPool \<Rightarrow> pool_error + nat \<times> 'd PhysicalBlockPool" where
  "evict_one p =
     (case unreferenced p of
        [] \<Rightarrow> Inl NoEvictableBlock
      | i # rest \<Rightarrow>
          let v = oldest (pool_blocks p) i rest
          in Inr (v, p\<lparr>prefix_index := invalidate (prefix_index p) v\<rparr>))"

section \<open>Concrete inputs\<close>

text \<open>
  Small stores, tables, requests and collaborators on which the theorems below are
  also evaluated.
\<close>

definition example_store :: "unit store" where
  "example_store r = new_PhysicalTokenBlock () (int r + 100) 16 0 0"

definition example_table :: BlockTable where
  "example_table = \<lparr>blocks = [0, 1, 2], block_ids = [100, 101, 102]\<rparr>"

definition example_serving :: OpenAIServing where
  "example_serving = \<lparr>OpenAIServing.max_model_len = 8\<rparr>"

text \<open>
  A worker that remembers what it was told, an executor configured by its world size and
  its maximum model length, and collaborators that never raise.
\<close>

record example_worker =
  available :: "int \<times> int"
  cache_blocks :: "(int \<times> int) option"
  device_ready :: bool
  model_loaded :: bool

definition example_worker0 :: example_worker where
  "example_worker0 =
     \<lparr>available = (100, 20), cache_blocks = None, device_ready = False,
      model_loaded = False\<rparr>"

definition example_collaborators :: "(unit, unit, example_worker) collaborators" where
  "example_collaborators =
     \<lparr>get_ip = ''127.0.0.1'',
      get_open_port = 29500,
      get_distributed_init_method = (\<lambda>ip port. ''tcp://'' @ ip),
      wrapper_init_worker = (\<lambda>kw. Inr example_worker0),
      worker_init_device = (\<lambda>w. (None, w\<lparr>device_ready := True\<rparr>)),
      worker_load_model = (\<lambda>w. (None, w\<lparr>model_loaded := True\<rparr>)),
      worker_determine_num_available_blocks = (\<lambda>w. (Inr (available w), w)),
      worker_initialize_cache = (\<lambda>g c w. (None, w\<lparr>cache_blocks := Some (g, c)\<rparr>))\<rparr>"

definition example_executor :: "int \<Rightarrow> int \<Rightarrow> ref option \<Rightarrow> (unit, unit) GPUExecutor" where
  "example_executor ws mml dw =
     \<lparr>model_config = \<lparr>max_model_len = mml\<rparr>,
      parallel_config = \<lparr>world_size = ws, tensor_parallel_size = ws\<rparr>,
      scheduler_config = \<lparr>is_multi_step = False\<rparr>,
      device_config = (),
      cache_config = \<lparr>block_size = 16\<rparr>,
      load_config = (),
      driver_worker = dw\<rparr>"

text \<open>
  Two tokenizers with the same hash, the second without a \<open>get_vocab\<close> method, and
  a grammar library whose objects are the arguments they were built from.
\<close>

definition example_tokenizer :: tokenizer where
  "example_tokenizer =
     \<lparr>py_hash = 42,
      from_huggingface =
        Inr \<lparr>TokenizerInfo.add_prefix_space = False, TokenizerInfo.vocab_type = RAW,
             TokenizerInfo.vocab_size = 3\<rparr>,
      get_vocab = Vocab [(''a'', 0), (''b'', 2), (''c'', 5), (''d'', - 2)],
      eos_token_id = Some 2,
      is_MistralTokenizer = False\<rparr>"

definition example_tokenizer_no_vocab :: tokenizer where
  "example_tokenizer_no_vocab =
     \<lparr>py_hash = 42,
      from_huggingface =
        Inr \<lparr>TokenizerInfo.add_prefix_space = False, TokenizerInfo.vocab_type = RAW,
             TokenizerInfo.vocab_size = 3\<rparr>,
      get_vocab = NoGetVocab,
      eos_token_id = None,
      is_MistralTokenizer = True\<rparr>"

definition example_tokenizer_data :: TokenizerData where
  "example_tokenizer_data =
     \<lparr>encoded_vocab = Some [''a'', ''d'', ''b''], stop_token_ids = Some [2],
      TokenizerData.vocab_size = 3, TokenizerData.vocab_type = Some RAW,
      TokenizerData.add_prefix_space = False\<rparr>"

definition example_xgr :: "(string list \<times> int, (string list \<times> int) \<times> int) xgr" where
  "example_xgr =
     \<lparr>xgr_TokenizerInfo = (\<lambda>ev vt vs st aps. Inr (ev, vs)),
      xgr_GrammarCompiler = (\<lambda>ti mt. Inr (ti, mt))\<rparr>"

definition example_config :: "int \<Rightarrow> TokenizerData option \<Rightarrow> GrammarConfig" where
  "example_config threads td =
     \<lparr>tokenizer_hash = 42, vocab_size = 3, json_str = None, grammar_str = None,
      json_object = Some True, any_whitespace = True, max_threads = threads,
      tokenizer_data = td\<rparr>"

text \<open>A pool of four blocks, two of them unreferenced.\<close>

definition example_block :: "int \<Rightarrow> int \<Rightarrow> real \<Rightarrow> unit PhysicalTokenBlock" where
  "example_block num refs t =
     (new_PhysicalTokenBlock () num 4 0 0)\<lparr>ref_count := refs, last_accessed := t\<rparr>"

definition example_pool :: "unit PhysicalBlockPool" where
  "example_pool =
     \<lparr>pool_blocks =
        [example_block 0 1 5, example_block 1 0 7, example_block 2 0 3, example_block 3 2 1],
      prefix_index = [11 \<mapsto> 2, 12 \<mapsto> 3]\<rparr>"

section \<open>Properties of list assignment\<close>

text \<open>
  The positions an extended slice assignment writes to are positions of the list, so
  the loop never leaves it.
\<close>

lemma le_div_times_le:
  fixes k a b :: int
  assumes "0 < b" and "k \<le> a div b"
  shows "k * b \<le> a"
proof -
  have "k * b \<le> (a div b) * b" using assms by (simp add: mult_right_mono)
  also have "\<dots> = a - a mod b" by (simp add: minus_mod_eq_div_mult)
  also have "\<dots> \<le> a" using pos_mod_sign [of b a] assms by simp
  finally show ?thesis .
qed

lemma adjust_start_range_pos:
  "0 \<le> n \<Longrightarrow> 0 < st \<Longrightarrow> 0 \<le> adjust_start n st s \<and> adjust_start n st s \<le> n"
  by (simp add: adjust_start_def adjust_bound_def split: option.splits)

lemma adjust_stop_range_pos:
  "0 \<le> n \<Longrightarrow> 0 < st \<Longrightarrow> 0 \<le> adjust_stop n st s \<and> adjust_stop n st s \<le> n"
  by (simp add: adjust_stop_def adjust_bound_def split: option.splits)

lemma adjust_start_range_neg:
  "0 \<le> n \<Longrightarrow> st < 0 \<Longrightarrow> - 1 \<le> adjust_start n st s \<and> adjust_start n st s \<le> n - 1"
  by (simp add: adjust_start_def adjust_bound_def split: option.splits)

lemma adjust_stop_range_neg:
  "0 \<le> n \<Longrightarrow> st < 0 \<Longrightarrow> - 1 \<le> adjust_stop n st s \<and> adjust_stop n st s \<le> n - 1"
  by (simp add: adjust_stop_def adjust_bound_def split: option.splits)

lemma strided_index_in_range:
  assumes n: "0 \<le> n" and st: "st \<noteq> 0"
    and k: "k < slicelength (adjust_start n st s) (adjust_stop n st e) st"
  shows "0 \<le> adjust_start n st s + int k * st \<and> adjust_start n st s + int k * st < n"
proof (cases "0 < st")
  case True
  define lo where "lo = adjust_start n st s"
  define hi where "hi = adjust_stop n st e"
  from k True have kk: "int k \<le> (hi - lo - 1) div st"
    by (auto simp: slicelength_def lo_def hi_def split: if_splits)
  from le_div_times_le [OF True kk] have "int k * st \<le> hi - lo - 1" .
  moreover have "0 \<le> lo" "hi \<le> n"
    using adjust_start_range_pos [OF n True] adjust_stop_range_pos [OF n True]
    by (simp_all add: lo_def hi_def)
  moreover have "0 \<le> int k * st" using True by simp
  ultimately show ?thesis unfolding lo_def by linarith
next
  case False
  with st have neg: "st < 0" by simp
  define lo where "lo = adjust_start n st s"
  define hi where "hi = adjust_stop n st e"
  from k neg have kk: "int k \<le> (lo - hi - 1) div (- st)"
    by (auto simp: slicelength_def lo_def hi_def split: if_splits)
  have "0 < - st" using neg by simp
  from le_div_times_le [OF this kk] have "int k * (- st) \<le> lo - hi - 1" .
  then have "hi + 1 \<le> lo + int k * st" by simp
  moreover have "- 1 \<le> hi" "lo \<le> n - 1"
    using adjust_start_range_neg [OF n neg] adjust_stop_range_neg [OF n neg]
    by (simp_all add: lo_def hi_def)
  moreover have "int k * st \<le> 0" using neg by (simp add: mult_nonneg_nonpos)
  ultimately show ?thesis unfolding lo_def by linarith
qed

text \<open>Assigning the images of the items to the image of a list gives the image.\<close>

lemma list_setitem_map:
  "list_setitem (map f xs) i (f v) = map_sum id (map f) (list_setitem xs i v)"
  by (simp add: list_setitem_def map_update split: option.splits)

lemma assign_strided_map:
  "assign_strided (map f xs) cur st (map f vs) = map f (assign_strided xs cur st vs)"
  by (induction vs arbitrary: xs cur) (simp_all add: map_update [symmetric])

lemma list_setslice_map:
  "list_setslice (map f xs) sl (map f vs) = map_sum id (map f) (list_setslice xs sl vs)"
  by (simp add: list_setslice_def Let_def assign_strided_map take_map drop_map)

section \<open>Properties of the block table\<close>

lemma append_all_eq:
  "append_all h t bs =
     (h, t\<lparr>blocks := blocks t @ bs,
           block_ids := block_ids t @ map (\<lambda>b. block_number (h b)) bs\<rparr>)"
  by (induction bs arbitrary: t) (simp_all add: append_block_def Let_def)

lemma new_BlockTable_eq:
  "new_BlockTable h bs =
     (h, \<lparr>blocks = (case bs of None \<Rightarrow> [] | Some l \<Rightarrow> l),
          block_ids = map (\<lambda>b. block_number (h b)) (case bs of None \<Rightarrow> [] | Some l \<Rightarrow> l)\<rparr>)"
  by (simp add: new_BlockTable_def append_all_eq split: option.splits)

lemma copy_eq:
  "copy h t =
     ((h, t), \<lparr>blocks = blocks t, block_ids = map (\<lambda>b. block_number (h b)) (blocks t)\<rparr>)"
  by (simp add: copy_def new_BlockTable_eq)

lemma setitem_index_mirror:
  assumes "ids_mirror h t" and "setitem_index h t k b = ((h', t'), r)"
  shows "h' = h \<and> ids_mirror h' t'"
  using assms list_setitem_map [of "\<lambda>b. block_number (h b)" "blocks t" k b]
  by (auto simp: setitem_index_def ids_mirror_def ids_def list_of_def Let_def
           split: sum.splits)

lemma setitem_slice_mirror:
  assumes "ids_mirror h t" and "setitem_slice h t sl (Blocks bs) = ((h', t'), r)"
  shows "h' = h \<and> ids_mirror h' t'"
  using assms list_setslice_map [of "\<lambda>b. block_number (h b)" "blocks t" sl bs]
  by (auto simp: setitem_slice_def first_reading_def second_reading_def ids_mirror_def
           ids_def list_of_def Let_def
           split: sum.splits)

text \<open>
  As long as the values assigned to slices are lists of the caller's, the cached ids
  stay in step with the blocks through every operation of the class.
\<close>

lemma ids_mirror_with_separate_lists:
  "reachable_by separate_list h t \<Longrightarrow> ids_mirror h t"
proof (induction rule: reachable_by.induct)
  case (r_new h bs h' t)
  then show ?case by (auto simp: new_BlockTable_eq ids_mirror_def ids_def list_of_def)
next
  case (r_append h t b h' t')
  then show ?case by (auto simp: append_block_def Let_def ids_mirror_def ids_def list_of_def)
next
  case (r_setitem_index h t k b h' t' r)
  then show ?case using setitem_index_mirror by blast
next
  case (r_setitem_slice h t v sl h' t' r)
  from r_setitem_slice.hyps(2) obtain bs where "v = Blocks bs"
    by (cases v) (simp_all add: separate_list_def)
  with r_setitem_slice show ?case using setitem_slice_mirror by blast
next
  case (r_reset h t h' t')
  then show ?case by (auto simp: reset_def ids_mirror_def ids_def list_of_def)
next
  case (r_copy_self h t h' t' c)
  then show ?case by (auto simp: copy_eq)
next
  case (r_copy_new h t h' t' c)
  then show ?case by (auto simp: copy_eq ids_mirror_def ids_def list_of_def)
qed

lemma example_reachable: "reachable_by allowed example_store example_table"
proof -
  have "new_BlockTable example_store (Some [0, 1, 2]) = (example_store, example_table)"
    by (simp add: new_BlockTable_eq example_table_def example_store_def
          new_PhysicalTokenBlock_def)
  then show ?thesis by (rule r_new)
qed

lemma example_mirror: "ids_mirror example_store example_table"
  by (simp add: ids_mirror_def ids_def list_of_def example_table_def example_store_def
        new_PhysicalTokenBlock_def)

lemma example_own_list:
  "setitem_slice example_store example_table (Slice (Some 0) (Some 0) None) OwnList
     = ((example_store,
         \<lparr>blocks = [0, 1, 2, 0, 1, 2],
          block_ids = [100, 101, 102, 100, 101, 102, 100, 101, 102]\<rparr>), None)"
  by (simp add: setitem_slice_def list_setslice_def adjust_start_def adjust_stop_def
        adjust_bound_def first_reading_def second_reading_def example_table_def
        example_store_def new_PhysicalTokenBlock_def)

text \<open>
  C6. The cached id list is meant to mirror the block list, and the code loses the
  mirror where the value of a slice assignment is the table's own block list: after
  \<open>t[0:0] = t.list()\<close> on a table of three blocks, a table reached through public
  operations only, the table has six blocks and nine ids. An iterator as the value loses
  it too: after \<open>t[0:0] = iter([b1])\<close> the table has four blocks and three ids.
\<close>

theorem setitem_slice_own_list_breaks_ids_mirror:
  "reachable_by any_value example_store
     \<lparr>blocks = [0, 1, 2, 0, 1, 2],
      block_ids = [100, 101, 102, 100, 101, 102, 100, 101, 102]\<rparr> \<and>
   len \<lparr>blocks = [0, 1, 2, 0, 1, 2],
        block_ids = [100, 101, 102, 100, 101, 102, 100, 101, 102]\<rparr> = 6 \<and>
   length (ids \<lparr>blocks = [0, 1, 2, 0, 1, 2],
                block_ids = [100, 101, 102, 100, 101, 102, 100, 101, 102]\<rparr>) = 9 \<and>
   setitem_slice example_store example_table (Slice (Some 0) (Some 0) None) OwnList
     = ((example_store,
         \<lparr>blocks = [0, 1, 2, 0, 1, 2],
          block_ids = [100, 101, 102, 100, 101, 102, 100, 101, 102]\<rparr>), None) \<and>
   setitem_slice example_store example_table (Slice (Some 0) (Some 0) None) (OneShot [1])
     = ((example_store, \<lparr>blocks = [1, 0, 1, 2], block_ids = [100, 101, 102]\<rparr>), None)"
proof -
  have a: "any_value OwnList" by (simp add: any_value_def)
  have r: "reachable_by any_value example_store
     \<lparr>blocks = [0, 1, 2, 0, 1, 2],
      block_ids = [100, 101, 102, 100, 101, 102, 100, 101, 102]\<rparr>"
    by (rule r_setitem_slice [OF example_reachable [of any_value] a example_own_list])
  have o: "setitem_slice example_store example_table (Slice (Some 0) (Some 0) None) (OneShot [1])
     = ((example_store, \<lparr>blocks = [1, 0, 1, 2], block_ids = [100, 101, 102]\<rparr>), None)"
    by (simp add: setitem_slice_def list_setslice_def adjust_start_def adjust_stop_def
        adjust_bound_def first_reading_def second_reading_def example_table_def)
  from r o example_own_list show ?thesis by (simp add: len_def ids_def)
qed

text \<open>
  C1, as the code has it. \<open>BlockTable.copy\<close> on a table whose id list mirrors its
  blocks returns a new table with the same block list and the same id list, and leaves
  the table it was called on and the whole block store as they were: no reference count
  changes.
\<close>

theorem copy_shares_blocks_keeps_ref_counts:
  assumes "ids_mirror h t"
  shows "case copy h t of
           ((h', t'), c) \<Rightarrow> list_of c = list_of t \<and> ids c = ids t \<and> t' = t \<and> h' = h"
  using assms by (simp add: copy_eq ids_mirror_def ids_def list_of_def)

theorem copy_shares_blocks_keeps_ref_counts_witness:
  "ids_mirror example_store example_table \<and>
   (case copy example_store example_table of
      ((h', t'), c) \<Rightarrow>
        list_of c = [0, 1, 2] \<and> ids c = [100, 101, 102] \<and> t' = example_table \<and>
        ref_count (h' 0) = 0)"
  using copy_shares_blocks_keeps_ref_counts [OF example_mirror] example_mirror
  by (auto simp: list_of_def ids_def example_table_def example_store_def
        new_PhysicalTokenBlock_def)

text \<open>
  C1, as the claim has it, fails: block 0 is referenced by the example table and its
  reference count after \<open>copy\<close> is not one more than before.
\<close>

theorem copy_increments_ref_count_counterexample:
  "0 \<in> set (list_of example_table) \<and>
   ref_count (fst (fst (copy example_store example_table)) 0)
     \<noteq> ref_count (example_store 0) + 1"
  by (simp add: copy_eq list_of_def example_table_def example_store_def
        new_PhysicalTokenBlock_def)

section \<open>Properties of the input validation\<close>

text \<open>
  C2. For a chat or completion request the validation raises, and then a ValueError
  about the context length, exactly when the prompt is too long: with \<open>max_tokens\<close>
  set, when the length of the input plus \<open>max_tokens\<close> exceeds \<open>max_model_len\<close>;
  with \<open>max_tokens\<close> None, when the length reaches \<open>max_model_len\<close>. Otherwise
  it returns the text and the token ids unchanged. For an embedding request it raises
  exactly when the length exceeds \<open>max_model_len\<close>.
\<close>

theorem validate_input_rejects_exactly_too_long:
  assumes "request = ChatCompletionRequest mt \<or> request = CompletionRequest mt"
  shows "(isl (validate_input self request input_ids input_text) \<longleftrightarrow>
            (case mt of
               Some m \<Rightarrow> int (length input_ids) + m > OpenAIServing.max_model_len self
             | None \<Rightarrow> int (length input_ids) \<ge> OpenAIServing.max_model_len self)) \<and>
         (\<forall>e. validate_input self request input_ids input_text = Inl e
               \<longrightarrow> (\<exists>c. e = ContextLength c)) \<and>
         (\<not> isl (validate_input self request input_ids input_text) \<longrightarrow>
            validate_input self request input_ids input_text
              = Inr (TextTokensPrompt input_text input_ids)) \<and>
         (isl (validate_input self EmbeddingRequest input_ids input_text) \<longleftrightarrow>
            int (length input_ids) > OpenAIServing.max_model_len self) \<and>
         (\<not> isl (validate_input self EmbeddingRequest input_ids input_text) \<longrightarrow>
            validate_input self EmbeddingRequest input_ids input_text
              = Inr (TextTokensPrompt input_text input_ids))"
  using assms
  by (auto simp: validate_input_def Let_def is_EmbeddingRequest_def
        is_TokenizeCompletionRequest_def is_TokenizeChatRequest_def is_DetokenizeRequest_def
        split: option.splits)

theorem validate_input_rejects_exactly_too_long_witness:
  "validate_input example_serving (CompletionRequest (Some 3)) [1, 2, 3, 4, 5, 6] ''abcdef''
     = Inl (ContextLength (CompletionTooLong 8 9 6 3)) \<and>
   validate_input example_serving (CompletionRequest (Some 3)) [1, 2, 3, 4, 5] ''abcde''
     = Inr (TextTokensPrompt ''abcde'' [1, 2, 3, 4, 5]) \<and>
   isl (validate_input example_serving (ChatCompletionRequest None) [1, 2, 3, 4, 5, 6, 7, 8] ''abcdefgh'') \<and>
   validate_input example_serving (ChatCompletionRequest None) [1, 2, 3, 4, 5, 6, 7] ''abcdefg''
     = Inr (TextTokensPrompt ''abcdefg'' [1, 2, 3, 4, 5, 6, 7]) \<and>
   validate_input example_serving EmbeddingRequest [1, 2, 3, 4, 5, 6, 7, 8] ''abcdefgh''
     = Inr (TextTokensPrompt ''abcdefgh'' [1, 2, 3, 4, 5, 6, 7, 8])"
proof -
  note a = validate_input_rejects_exactly_too_long
     [of "CompletionRequest (Some 3)" "Some 3" example_serving "[1, 2, 3, 4, 5]" "''abcde''"]
  note b = validate_input_rejects_exactly_too_long
     [of "ChatCompletionRequest None" None example_serving "[1, 2, 3, 4, 5, 6, 7, 8]" "''abcdefgh''"]
  note c = validate_input_rejects_exactly_too_long
     [of "ChatCompletionRequest None" None example_serving "[1, 2, 3, 4, 5, 6, 7]" "''abcdefg''"]
  have 1: "validate_input example_serving (CompletionRequest (Some 3)) [1, 2, 3, 4, 5, 6] ''abcdef''
     = Inl (ContextLength (CompletionTooLong 8 9 6 3))"
    by (simp add: validate_input_def example_serving_def is_EmbeddingRequest_def
        is_TokenizeCompletionRequest_def is_TokenizeChatRequest_def is_DetokenizeRequest_def)
  have 2: "validate_input example_serving (CompletionRequest (Some 3)) [1, 2, 3, 4, 5] ''abcde''
     = Inr (TextTokensPrompt ''abcde'' [1, 2, 3, 4, 5])"
    using a by (simp add: example_serving_def)
  have 3: "isl (validate_input example_serving (ChatCompletionRequest None) [1, 2, 3, 4, 5, 6, 7, 8] ''abcdefgh'')"
    using b by (simp add: example_serving_def)
  have 4: "validate_input example_serving (ChatCompletionRequest None) [1, 2, 3, 4, 5, 6, 7] ''abcdefg''
     = Inr (TextTokensPrompt ''abcdefg'' [1, 2, 3, 4, 5, 6, 7])"
    using c by (simp add: example_serving_def)
  have 5: "validate_input example_serving EmbeddingRequest [1, 2, 3, 4, 5, 6, 7, 8] ''abcdefgh''
     = Inr (TextTokensPrompt ''abcdefgh'' [1, 2, 3, 4, 5, 6, 7, 8])"
    using validate_input_rejects_exactly_too_long
      [of "CompletionRequest None" None example_serving "[1, 2, 3, 4, 5, 6, 7, 8]" "''abcdefgh''"]
    by (simp add: example_serving_def)
  from 1 2 3 4 5 show ?thesis by blast
qed

text \<open>
  C10. For a tokenize-completion, tokenize-chat or detokenize request the validation
  never raises, whatever the length of the input: it returns the text and the token ids
  unchanged and checks no context length.
\<close>

theorem validate_input_tokenize_never_raises:
  "validate_input self TokenizeCompletionRequest input_ids input_text
     = Inr (TextTokensPrompt input_text input_ids) \<and>
   validate_input self TokenizeChatRequest input_ids input_text
     = Inr (TextTokensPrompt input_text input_ids) \<and>
   validate_input self DetokenizeRequest input_ids input_text
     = Inr (TextTokensPrompt input_text input_ids)"
  by (simp add: validate_input_def is_EmbeddingRequest_def
        is_TokenizeCompletionRequest_def is_TokenizeChatRequest_def is_DetokenizeRequest_def)

theorem validate_input_tokenize_never_raises_witness:
  "int (length [1, 2, 3, 4, 5, 6, 7, 8, 9, 10 :: int]) > OpenAIServing.max_model_len example_serving \<and>
   validate_input example_serving DetokenizeRequest [1, 2, 3, 4, 5, 6, 7, 8, 9, 10] ''abcdefghij''
     = Inr (TextTokensPrompt ''abcdefghij'' [1, 2, 3, 4, 5, 6, 7, 8, 9, 10])"
  using validate_input_tokenize_never_raises
    [of example_serving "[1, 2, 3, 4, 5, 6, 7, 8, 9, 10]" "''abcdefghij''"]
  by (simp add: example_serving_def)

section \<open>Properties of the engine request\<close>

text \<open>
  C9. A request built through the deprecated keyword \<open>inputs\<close> is the request built
  with the same value as \<open>prompt\<close> and the same remaining arguments, field by field;
  a construction with neither of the two, or without \<open>params\<close> or without
  \<open>request_id\<close>, fails by assertion.
\<close>

theorem RPCProcessRequest_inputs_is_prompt:
  fixes p :: 'p and s :: 's and th :: "'h option"
  shows "RPCProcessRequest_init None ps rid th pr (Some p)
           = (RPCProcessRequest_init (Some p) ps rid th pr None
                :: exn + ('p, 's, 'h) RPCProcessRequest) \<and>
         RPCProcessRequest_init None (Some s) (Some r) th pr (Some p)
           = Inr \<lparr>prompt = p, params = s, request_id = r, trace_headers = th, priority = pr\<rparr> \<and>
         RPCProcessRequest_init (Some p) (Some s) (Some r) th pr None
           = Inr \<lparr>prompt = p, params = s, request_id = r, trace_headers = th, priority = pr\<rparr> \<and>
         (RPCProcessRequest_init None ps rid th pr None
            :: exn + ('p, 's, 'h) RPCProcessRequest) = Inl (AssertionError []) \<and>
         (RPCProcessRequest_init pa None rid th pr inp
            :: exn + ('p, 's, 'h) RPCProcessRequest) = Inl (AssertionError []) \<and>
         (RPCProcessRequest_init pa ps None th pr inp
            :: exn + ('p, 's, 'h) RPCProcessRequest) = Inl (AssertionError [])"
  by (simp add: RPCProcessRequest_init_def split: option.splits)

theorem RPCProcessRequest_inputs_is_prompt_witness:
  "RPCProcessRequest_init None (Some (7::nat)) (Some ''req-1'') (None :: unit option) 0 (Some ''Hello'')
     = RPCProcessRequest_init (Some ''Hello'') (Some 7) (Some ''req-1'') None 0 None \<and>
   RPCProcessRequest_init None (Some (7::nat)) (Some ''req-1'') (None :: unit option) 0 (Some ''Hello'')
     = Inr \<lparr>prompt = ''Hello'', params = 7, request_id = ''req-1'', trace_headers = None,
            priority = 0\<rparr>"
  using RPCProcessRequest_inputs_is_prompt
    [of "Some (7::nat)" "Some ''req-1''" "None :: unit option" 0 "''Hello''" 7 "''req-1''"]
  by simp

section \<open>Properties of the executor\<close>

text \<open>
  What the two methods do. With a driver worker in place,
  \<open>determine_num_available_blocks\<close> returns what the worker returns (its pair of
  block counts, or its exception) and leaves the executor as it was.
  \<open>initialize_cache\<close> first computes \<open>num_gpu_blocks * block_size / max_model_len\<close>
  for its log line: when that division raises, the call raises and the worker is not
  reached; otherwise the worker receives exactly the two counts. In every case the
  executor itself is unchanged.
\<close>

theorem executor_forwards_block_counts:
  assumes "driver_worker self = Some r" and "r < length ws"
  shows "determine_num_available_blocks c self ws
           = (case worker_determine_num_available_blocks c (ws ! r) of
                (res, w') \<Rightarrow> (map_sum External id res, self, ws[r := w'])) \<and>
         (true_div_raises (num_gpu_blocks * block_size (cache_config self))
              (max_model_len (model_config self)) = None \<longrightarrow>
            initialize_cache c self ws num_gpu_blocks num_cpu_blocks
              = (case worker_initialize_cache c num_gpu_blocks num_cpu_blocks (ws ! r) of
                   (res, w') \<Rightarrow> (raised res, self, ws[r := w']))) \<and>
         (\<forall>e. true_div_raises (num_gpu_blocks * block_size (cache_config self))
              (max_model_len (model_config self)) = Some e \<longrightarrow>
            initialize_cache c self ws num_gpu_blocks num_cpu_blocks = (Some e, self, ws)) \<and>
         fst (snd (initialize_cache c self ws num_gpu_blocks num_cpu_blocks)) = self \<and>
         fst (snd (determine_num_available_blocks c self ws)) = self"
  using assms
  by (auto simp: determine_num_available_blocks_def initialize_cache_def on_worker_def
        split: prod.splits sum.splits option.splits)

theorem executor_forwards_block_counts_witness:
  "determine_num_available_blocks example_collaborators (example_executor 1 2048 (Some 0))
       [example_worker0]
     = (Inr (100, 20), example_executor 1 2048 (Some 0), [example_worker0]) \<and>
   initialize_cache example_collaborators (example_executor 1 2048 (Some 0))
       [example_worker0] 100 20
     = (None, example_executor 1 2048 (Some 0),
        [example_worker0\<lparr>cache_blocks := Some (100, 20)\<rparr>])"
  using executor_forwards_block_counts
    [of "example_executor 1 2048 (Some 0)" 0 "[example_worker0]" example_collaborators 100 20]
  by (simp add: example_executor_def example_collaborators_def true_div_raises_def raised_def
        example_worker0_def)

text \<open>
  C7. \<open>initialize_cache\<close> is to hand both block counts to the driver worker
  unchanged. On an executor whose \<open>max_model_len\<close> is 0 it does not: the division
  that only feeds a log line raises ZeroDivisionError, and the call ends before the
  worker is called, which never receives the counts. With a \<open>max_model_len\<close> of
  2048 the same call hands the worker the two counts.
\<close>

theorem initialize_cache_zero_model_len_raises:
  "initialize_cache example_collaborators (example_executor 1 0 (Some 0)) [example_worker0] 100 20
     = (Some ZeroDivisionError, example_executor 1 0 (Some 0), [example_worker0]) \<and>
   cache_blocks example_worker0 \<noteq> Some (100, 20) \<and>
   initialize_cache example_collaborators (example_executor 1 2048 (Some 0)) [example_worker0] 100 20
     = (None, example_executor 1 2048 (Some 0),
        [example_worker0\<lparr>cache_blocks := Some (100, 20)\<rparr>])"
  by (simp add: initialize_cache_def example_executor_def true_div_raises_def
        example_worker0_def example_collaborators_def on_worker_def raised_def)

text \<open>
  The keyword arguments for the worker can be computed unless the tensor-parallel size
  is 0 (the remainder \<open>rank % tensor_parallel_size\<close> then raises).
\<close>

lemma kwargs_ok:
  "tensor_parallel_size (parallel_config self) \<noteq> 0 \<Longrightarrow>
     \<exists>kw. get_create_worker_kwargs c self lr rk m = Inr kw"
  by (simp add: get_create_worker_kwargs_def get_worker_kwargs_def
        get_worker_module_and_class_def Let_def)

lemma create_worker_cases:
  "executor_create_worker c self ws lr rk m = (res, ws1) \<Longrightarrow>
     (\<exists>e. res = Inl e \<and> ws1 = ws \<and> (\<forall>msg. e \<noteq> AssertionError msg)) \<or>
     (\<exists>w. res = Inr (length ws) \<and> ws1 = ws @ [w])"
  by (auto simp: executor_create_worker_def create_worker_def get_create_worker_kwargs_def
        get_worker_kwargs_def Let_def split: sum.splits prod.splits if_splits)

text \<open>
  C8. \<open>_init_executor\<close> fails by assertion, touching nothing, for every
  configuration whose world size is not 1. With world size 1 the assertion does not fail:
  the call goes on to \<open>_create_worker\<close>, creates at most one worker, and exactly one
  (the driver worker, at the next free reference) whenever the worker wrapper builds it;
  when the device and the model then initialise, the call returns normally.
\<close>

theorem init_executor_single_gpu_only:
  "(world_size (parallel_config self) \<noteq> 1 \<longrightarrow>
      init_executor c self ws
        = (Some (AssertionError ''GPUExecutor only supports single GPU.''), self, ws)) \<and>
   (world_size (parallel_config self) = 1 \<longrightarrow>
      (case init_executor c self ws of
         (res, self', ws') \<Rightarrow>
           (\<forall>msg. res \<noteq> Some (AssertionError msg)) \<and>
           ((ws' = ws \<and> self' = self) \<or>
            (length ws' = Suc (length ws) \<and> take (length ws) ws' = ws \<and>
             self' = self\<lparr>driver_worker := Some (length ws)\<rparr>)) \<and>
           (res = None \<longrightarrow>
              length ws' = Suc (length ws) \<and> driver_worker self' = Some (length ws)) \<and>
           (\<forall>kw w. get_create_worker_kwargs c self 0 0 None = Inr kw \<longrightarrow>
                   wrapper_init_worker c kw = Inr w \<longrightarrow>
                   length ws' = Suc (length ws) \<and> driver_worker self' = Some (length ws)) \<and>
           (\<forall>kw w w1 w2. get_create_worker_kwargs c self 0 0 None = Inr kw \<longrightarrow>
                   wrapper_init_worker c kw = Inr w \<longrightarrow>
                   worker_init_device c w = (None, w1) \<longrightarrow>
                   worker_load_model c w1 = (None, w2) \<longrightarrow>
                   res = None \<and> ws' = ws @ [w2])))"
proof (intro conjI impI)
  assume "world_size (parallel_config self) \<noteq> 1"
  then show "init_executor c self ws
        = (Some (AssertionError ''GPUExecutor only supports single GPU.''), self, ws)"
    by (simp add: init_executor_def)
next
  assume one: "world_size (parallel_config self) = 1"
  obtain r ws1 where cw: "executor_create_worker c self ws 0 0 None = (r, ws1)"
    by (cases "executor_create_worker c self ws 0 0 None")
  from create_worker_cases [OF cw] show "case init_executor c self ws of
         (res, self', ws') \<Rightarrow>
           (\<forall>msg. res \<noteq> Some (AssertionError msg)) \<and>
           ((ws' = ws \<and> self' = self) \<or>
            (length ws' = Suc (length ws) \<and> take (length ws) ws' = ws \<and>
             self' = self\<lparr>driver_worker := Some (length ws)\<rparr>)) \<and>
           (res = None \<longrightarrow>
              length ws' = Suc (length ws) \<and> driver_worker self' = Some (length ws)) \<and>
           (\<forall>kw w. get_create_worker_kwargs c self 0 0 None = Inr kw \<longrightarrow>
                   wrapper_init_worker c kw = Inr w \<longrightarrow>
                   length ws' = Suc (length ws) \<and> driver_worker self' = Some (length ws)) \<and>
           (\<forall>kw w w1 w2. get_create_worker_kwargs c self 0 0 None = Inr kw \<longrightarrow>
                   wrapper_init_worker c kw = Inr w \<longrightarrow>
                   worker_init_device c w = (None, w1) \<longrightarrow>
                   worker_load_model c w1 = (None, w2) \<longrightarrow>
                   res = None \<and> ws' = ws @ [w2])"
  proof
    assume "\<exists>e. r = Inl e \<and> ws1 = ws \<and> (\<forall>msg. e \<noteq> AssertionError msg)"
    then obtain e where e: "r = Inl e" "ws1 = ws" "\<forall>msg. e \<noteq> AssertionError msg" by blast
    with cw one have "init_executor c self ws = (Some e, self, ws)"
      by (simp add: init_executor_def)
    moreover from cw e have "\<And>kw w. get_create_worker_kwargs c self 0 0 None = Inr kw \<Longrightarrow>
                   wrapper_init_worker c kw = Inr w \<Longrightarrow> False"
      by (auto simp: executor_create_worker_def create_worker_def split: sum.splits)
    ultimately show ?thesis using e by auto
  next
    assume "\<exists>w. r = Inr (length ws) \<and> ws1 = ws @ [w]"
    then obtain w where w: "r = Inr (length ws)" "ws1 = ws @ [w]" by blast
    from cw w have kw: "\<And>kw w'. get_create_worker_kwargs c self 0 0 None = Inr kw \<Longrightarrow>
                   wrapper_init_worker c kw = Inr w' \<Longrightarrow> w' = w"
      by (auto simp: executor_create_worker_def create_worker_def split: sum.splits)
    obtain r1 w1 where d: "worker_init_device c w = (r1, w1)"
      by (cases "worker_init_device c w")
    obtain r2 w2 where l: "worker_load_model c w1 = (r2, w2)"
      by (cases "worker_load_model c w1")
    show ?thesis
    proof (cases r1)
      case (Some n)
      with cw one w d have "init_executor c self ws
          = (Some (External n), self\<lparr>driver_worker := Some (length ws)\<rparr>, ws @ [w1])"
        by (simp add: init_executor_def on_worker_def Let_def)
      then show ?thesis using kw d Some by auto
    next
      case None
      with cw one w d l have "init_executor c self ws
          = (raised r2, self\<lparr>driver_worker := Some (length ws)\<rparr>, ws @ [w2])"
        by (simp add: init_executor_def on_worker_def Let_def)
      then show ?thesis using kw d l None by (auto simp: raised_def)
    qed
  qed
qed

theorem init_executor_single_gpu_only_witness:
  "init_executor example_collaborators (example_executor 1 2048 None) []
     = (None, example_executor 1 2048 (Some 0),
        [example_worker0\<lparr>device_ready := True, model_loaded := True\<rparr>]) \<and>
   init_executor example_collaborators (example_executor 2 2048 None) []
     = (Some (AssertionError ''GPUExecutor only supports single GPU.''),
        example_executor 2 2048 None, [])"
proof -
  have kw: "\<exists>kw. get_create_worker_kwargs example_collaborators (example_executor 1 2048 None) 0 0 None = Inr kw"
    by (rule kwargs_ok) (simp add: example_executor_def)
  then obtain kw where k: "get_create_worker_kwargs example_collaborators (example_executor 1 2048 None) 0 0 None = Inr kw" ..
  have i: "wrapper_init_worker example_collaborators kw = Inr example_worker0"
    by (simp add: example_collaborators_def)
  have d: "worker_init_device example_collaborators example_worker0
             = (None, example_worker0\<lparr>device_ready := True\<rparr>)"
    by (simp add: example_collaborators_def)
  have l: "worker_load_model example_collaborators (example_worker0\<lparr>device_ready := True\<rparr>)
             = (None, example_worker0\<lparr>device_ready := True, model_loaded := True\<rparr>)"
    by (simp add: example_collaborators_def)
  note t = init_executor_single_gpu_only
             [of "example_executor 1 2048 None" example_collaborators "[]"]
  note u = init_executor_single_gpu_only
             [of "example_executor 2 2048 None" example_collaborators "[]"]
  have one: "world_size (parallel_config (example_executor 1 2048 None)) = 1"
    by (simp add: example_executor_def)
  have two: "world_size (parallel_config (example_executor 2 2048 None)) \<noteq> 1"
    by (simp add: example_executor_def)
  obtain res self' ws' where r: "init_executor example_collaborators (example_executor 1 2048 None) [] = (res, self', ws')"
    by (cases "init_executor example_collaborators (example_executor 1 2048 None) []")
  from t one r k i d l have "res = None" "ws' = [example_worker0\<lparr>device_ready := True, model_loaded := True\<rparr>]"
    "self' = example_executor 1 2048 None \<or> self' = (example_executor 1 2048 None)\<lparr>driver_worker := Some 0\<rparr>"
    "driver_worker self' = Some 0"
    by auto
  then have "self' = example_executor 1 2048 (Some 0)"
    by (auto simp: example_executor_def)
  with r \<open>res = None\<close> \<open>ws' = _\<close> u two show ?thesis by simp
qed

section \<open>Properties of the grammar caches\<close>

text \<open>
  A call that finds its key missing and whose construction returns stores the result and
  returns it; a call that raises stores nothing. An entry, once in a cache, stays: no
  call removes or replaces it, and a call whose key is present returns the entry without
  looking at the tokenizer or the configuration.
\<close>

lemma get_tokenizer_data_miss:
  "cache (py_hash tok) = None \<Longrightarrow> extract_tokenizer_data tok = Inr d \<Longrightarrow>
     get_tokenizer_data cache tok = (Inr d, cache(py_hash tok \<mapsto> d))"
  by (simp add: get_tokenizer_data_def)

lemma get_tokenizer_data_raises:
  "get_tokenizer_data cache tok = (Inl e, cache') \<Longrightarrow>
     cache' = cache \<and> cache (py_hash tok) = None \<and> extract_tokenizer_data tok = Inl e"
  by (auto simp: get_tokenizer_data_def Let_def split: option.splits sum.splits)

lemma get_tokenizer_data_hit:
  "cache (py_hash tok) = Some d \<Longrightarrow> get_tokenizer_data cache tok = (Inr d, cache)"
  by (simp add: get_tokenizer_data_def)

lemma get_tokenizer_data_keeps:
  "cache k = Some d \<Longrightarrow> snd (get_tokenizer_data cache tok) k = Some d"
  by (auto simp: get_tokenizer_data_def Let_def split: option.splits sum.splits)

lemma tokenizer_calls_keeps:
  "cache k = Some d \<Longrightarrow> tokenizer_calls cache toks k = Some d"
  by (induction toks arbitrary: cache) (simp_all add: get_tokenizer_data_keeps)

lemma get_tokenizer_data_stores:
  "get_tokenizer_data cache tok = (Inr d, cache') \<Longrightarrow> cache' (py_hash tok) = Some d"
  by (auto simp: get_tokenizer_data_def Let_def split: option.splits sum.splits)

lemma get_tokenizer_data_fresh:
  "cache (py_hash tok) = None \<Longrightarrow> \<not> isl (extract_tokenizer_data tok) \<Longrightarrow>
     snd (get_tokenizer_data cache tok) (py_hash tok) \<noteq> None"
  by (auto simp: get_tokenizer_data_def Let_def split: option.splits sum.splits)

lemma extractions_present:
  "cache k \<noteq> None \<Longrightarrow> extractions cache toks k = 0"
proof (induction toks arbitrary: cache)
  case Nil
  then show ?case by simp
next
  case (Cons tok toks)
  from Cons.prems obtain d where d: "cache k = Some d" by auto
  have "snd (get_tokenizer_data cache tok) k \<noteq> None"
    using get_tokenizer_data_keeps [of cache k d tok] d by simp
  then have "extractions (snd (get_tokenizer_data cache tok)) toks k = 0"
    by (rule Cons.IH)
  with d show ?case by simp
qed

lemma extractions_le_one:
  "\<forall>tok \<in> set toks. py_hash tok = k \<longrightarrow> \<not> isl (extract_tokenizer_data tok) \<Longrightarrow>
     extractions cache toks k \<le> 1"
proof (induction toks arbitrary: cache)
  case Nil
  then show ?case by simp
next
  case (Cons tok toks)
  from Cons.prems have rest:
    "\<forall>tok \<in> set toks. py_hash tok = k \<longrightarrow> \<not> isl (extract_tokenizer_data tok)" by simp
  show ?case
  proof (cases "py_hash tok = k \<and> cache k = None")
    case True
    with Cons.prems have "\<not> isl (extract_tokenizer_data tok)" by simp
    with True have "snd (get_tokenizer_data cache tok) k \<noteq> None"
      using get_tokenizer_data_fresh [of cache tok] by auto
    then have "extractions (snd (get_tokenizer_data cache tok)) toks k = 0"
      by (rule extractions_present)
    with True show ?thesis by simp
  next
    case False
    with Cons.IH [OF rest, of "snd (get_tokenizer_data cache tok)"] show ?thesis by auto
  qed
qed

lemma get_compiler_miss:
  "cache (str_int (tokenizer_hash cfg)) = None \<Longrightarrow> tokenizer_data cfg = Some td \<Longrightarrow>
   encoded_vocab td = Some ev \<Longrightarrow>
   xgr_TokenizerInfo x ev (TokenizerData.vocab_type td) (TokenizerData.vocab_size td)
     (stop_token_ids td) (TokenizerData.add_prefix_space td) = Inr ti \<Longrightarrow>
   xgr_GrammarCompiler x ti (max_threads cfg) = Inr gc \<Longrightarrow>
     get_compiler x cache cfg = (Inr gc, cache(str_int (tokenizer_hash cfg) \<mapsto> gc))"
  by (simp add: get_compiler_def)

lemma get_compiler_raises:
  "get_compiler x cache cfg = (Inl e, cache') \<Longrightarrow> cache' = cache"
  by (auto simp: get_compiler_def Let_def split: option.splits sum.splits)

lemma get_compiler_hit:
  "cache (str_int (tokenizer_hash cfg)) = Some gc \<Longrightarrow> get_compiler x cache cfg = (Inr gc, cache)"
  by (simp add: get_compiler_def)

lemma get_compiler_keeps:
  "cache k = Some gc \<Longrightarrow> snd (get_compiler x cache cfg) k = Some gc"
  by (auto simp: get_compiler_def Let_def split: option.splits sum.splits)

lemma compiler_calls_keeps:
  "cache k = Some gc \<Longrightarrow> compiler_calls x cache cfgs k = Some gc"
  by (induction cfgs arbitrary: cache) (simp_all add: get_compiler_keeps)

lemma get_compiler_stores:
  "get_compiler x cache cfg = (Inr gc, cache') \<Longrightarrow>
     cache' (str_int (tokenizer_hash cfg)) = Some gc"
  by (auto simp: get_compiler_def Let_def split: option.splits sum.splits)

text \<open>
  C4, as the code has it. A call of \<open>get_tokenizer_data\<close> that finds the hash missing
  and whose extraction returns stores the entry under the hash and returns it; a call
  that raises leaves the cache as it was. Once a call has returned an entry, every later
  call with a tokenizer of the same hash, after any calls in between, returns that entry,
  leaves the cache as it is and runs no extraction for that hash; in a run in which no
  extraction for a key raises, the extraction runs for it at most once.
  \<open>get_compiler\<close> likewise builds and stores a compiler when the key is missing and
  the library returns one, stores nothing when it raises, and from then on returns the
  stored compiler for every configuration of the same \<open>tokenizer_hash\<close>.
\<close>

theorem caches_idempotent_once_filled:
  "(cache (py_hash tok1) = None \<longrightarrow> extract_tokenizer_data tok1 = Inr d0 \<longrightarrow>
      get_tokenizer_data cache tok1 = (Inr d0, cache(py_hash tok1 \<mapsto> d0))) \<and>
   (\<forall>e. get_tokenizer_data cache tok1 = (Inl e, cache1) \<longrightarrow> cache1 = cache) \<and>
   (get_tokenizer_data cache tok1 = (Inr d, cache1) \<longrightarrow> py_hash tok2 = py_hash tok1 \<longrightarrow>
      get_tokenizer_data (tokenizer_calls cache1 toks) tok2
        = (Inr d, tokenizer_calls cache1 toks) \<and>
      extractions cache1 (toks @ [tok2]) (py_hash tok1) = 0) \<and>
   ((\<forall>tok \<in> set toks0. py_hash tok = k \<longrightarrow> \<not> isl (extract_tokenizer_data tok)) \<longrightarrow>
      extractions cache0 toks0 k \<le> 1) \<and>
   (ccache (str_int (tokenizer_hash cfg1)) = None \<longrightarrow> tokenizer_data cfg1 = Some td \<longrightarrow>
    encoded_vocab td = Some ev \<longrightarrow>
    xgr_TokenizerInfo x ev (TokenizerData.vocab_type td) (TokenizerData.vocab_size td)
      (stop_token_ids td) (TokenizerData.add_prefix_space td) = Inr ti \<longrightarrow>
    xgr_GrammarCompiler x ti (max_threads cfg1) = Inr gc0 \<longrightarrow>
      get_compiler x ccache cfg1 = (Inr gc0, ccache(str_int (tokenizer_hash cfg1) \<mapsto> gc0))) \<and>
   (\<forall>e. get_compiler x ccache cfg1 = (Inl e, ccache1) \<longrightarrow> ccache1 = ccache) \<and>
   (get_compiler x ccache cfg1 = (Inr gc, ccache1) \<longrightarrow>
    tokenizer_hash cfg2 = tokenizer_hash cfg1 \<longrightarrow>
      get_compiler x (compiler_calls x ccache1 cfgs) cfg2
        = (Inr gc, compiler_calls x ccache1 cfgs))"
proof (intro conjI impI allI)
  assume "cache (py_hash tok1) = None" "extract_tokenizer_data tok1 = Inr d0"
  then show "get_tokenizer_data cache tok1 = (Inr d0, cache(py_hash tok1 \<mapsto> d0))"
    by (rule get_tokenizer_data_miss)
next
  fix e assume "get_tokenizer_data cache tok1 = (Inl e, cache1)"
  then show "cache1 = cache" by (simp add: get_tokenizer_data_raises)
next
  assume a: "get_tokenizer_data cache tok1 = (Inr d, cache1)" and h: "py_hash tok2 = py_hash tok1"
  from get_tokenizer_data_stores [OF a] have "cache1 (py_hash tok2) = Some d" by (simp add: h)
  then have "tokenizer_calls cache1 toks (py_hash tok2) = Some d" by (rule tokenizer_calls_keeps)
  then show "get_tokenizer_data (tokenizer_calls cache1 toks) tok2
        = (Inr d, tokenizer_calls cache1 toks)" by (rule get_tokenizer_data_hit)
next
  assume a: "get_tokenizer_data cache tok1 = (Inr d, cache1)"
  from get_tokenizer_data_stores [OF a] have "cache1 (py_hash tok1) \<noteq> None" by simp
  then show "extractions cache1 (toks @ [tok2]) (py_hash tok1) = 0"
    by (rule extractions_present)
next
  assume "\<forall>tok \<in> set toks0. py_hash tok = k \<longrightarrow> \<not> isl (extract_tokenizer_data tok)"
  then show "extractions cache0 toks0 k \<le> 1" by (rule extractions_le_one)
next
  assume "ccache (str_int (tokenizer_hash cfg1)) = None" "tokenizer_data cfg1 = Some td"
    "encoded_vocab td = Some ev"
    "xgr_TokenizerInfo x ev (TokenizerData.vocab_type td) (TokenizerData.vocab_size td)
      (stop_token_ids td) (TokenizerData.add_prefix_space td) = Inr ti"
    "xgr_GrammarCompiler x ti (max_threads cfg1) = Inr gc0"
  then show "get_compiler x ccache cfg1
               = (Inr gc0, ccache(str_int (tokenizer_hash cfg1) \<mapsto> gc0))"
    by (rule get_compiler_miss)
next
  fix e assume "get_compiler x ccache cfg1 = (Inl e, ccache1)"
  then show "ccache1 = ccache" by (rule get_compiler_raises)
next
  assume a: "get_compiler x ccache cfg1 = (Inr gc, ccache1)"
    and h: "tokenizer_hash cfg2 = tokenizer_hash cfg1"
  from get_compiler_stores [OF a] have "ccache1 (str_int (tokenizer_hash cfg2)) = Some gc"
    by (simp add: h)
  then have "compiler_calls x ccache1 cfgs (str_int (tokenizer_hash cfg2)) = Some gc"
    by (rule compiler_calls_keeps)
  then show "get_compiler x (compiler_calls x ccache1 cfgs) cfg2
        = (Inr gc, compiler_calls x ccache1 cfgs)" by (rule get_compiler_hit)
qed

lemma example_extract: "extract_tokenizer_data example_tokenizer = Inr example_tokenizer_data"
  by (simp add: extract_tokenizer_data_def example_tokenizer_def example_tokenizer_data_def
        list_setitem_def norm_index_def eval_nat_numeral)

lemma example_extract_no_vocab:
  "extract_tokenizer_data example_tokenizer_no_vocab = Inl CannotGetVocabulary"
  by (simp add: extract_tokenizer_data_def example_tokenizer_no_vocab_def)

lemma example_str: "str_int 42 = ''42''"
  by code_simp

theorem caches_idempotent_once_filled_witness:
  "get_tokenizer_data Map.empty example_tokenizer
     = (Inr example_tokenizer_data, [42 \<mapsto> example_tokenizer_data]) \<and>
   get_tokenizer_data [42 \<mapsto> example_tokenizer_data] example_tokenizer_no_vocab
     = (Inr example_tokenizer_data, [42 \<mapsto> example_tokenizer_data]) \<and>
   extractions [42 \<mapsto> example_tokenizer_data] [example_tokenizer_no_vocab] 42 = 0 \<and>
   extractions Map.empty [example_tokenizer, example_tokenizer] 42 = 1 \<and>
   get_compiler example_xgr Map.empty (example_config 8 (Some example_tokenizer_data))
     = (Inr (([''a'', ''d'', ''b''], 3), 8), [''42'' \<mapsto> (([''a'', ''d'', ''b''], 3), 8)]) \<and>
   get_compiler example_xgr [''42'' \<mapsto> (([''a'', ''d'', ''b''], 3), 8)] (example_config 2 None)
     = (Inr (([''a'', ''d'', ''b''], 3), 8), [''42'' \<mapsto> (([''a'', ''d'', ''b''], 3), 8)])"
proof -
  note t = caches_idempotent_once_filled
    [of Map.empty example_tokenizer example_tokenizer_data "[42 \<mapsto> example_tokenizer_data]"
        example_tokenizer_data example_tokenizer_no_vocab "[]"
        "[example_tokenizer, example_tokenizer]" 42 Map.empty
        Map.empty "example_config 8 (Some example_tokenizer_data)" example_tokenizer_data
        "[''a'', ''d'', ''b'']" example_xgr "([''a'', ''d'', ''b''], 3)"
        "(([''a'', ''d'', ''b''], 3), 8)" "[''42'' \<mapsto> (([''a'', ''d'', ''b''], 3), 8)]"
        "(([''a'', ''d'', ''b''], 3), 8)" "example_config 2 None" "[]"]
  have h: "py_hash example_tokenizer = 42" "py_hash example_tokenizer_no_vocab = 42"
    by (simp_all add: example_tokenizer_def example_tokenizer_no_vocab_def)
  have first: "get_tokenizer_data Map.empty example_tokenizer
     = (Inr example_tokenizer_data, [42 \<mapsto> example_tokenizer_data])"
    using t example_extract h by simp
  have ok: "\<forall>tok \<in> set [example_tokenizer, example_tokenizer].
              py_hash tok = 42 \<longrightarrow> \<not> isl (extract_tokenizer_data tok)"
    using example_extract by simp
  have ge: "extractions Map.empty [example_tokenizer, example_tokenizer] 42 \<ge> 1"
    by (simp add: h)
  have cfg: "tokenizer_hash (example_config 8 (Some example_tokenizer_data)) = 42"
    "tokenizer_hash (example_config 2 None) = 42"
    "tokenizer_data (example_config 8 (Some example_tokenizer_data)) = Some example_tokenizer_data"
    "max_threads (example_config 8 (Some example_tokenizer_data)) = 8"
    by (simp_all add: example_config_def)
  have td: "encoded_vocab example_tokenizer_data = Some [''a'', ''d'', ''b'']"
    "xgr_TokenizerInfo example_xgr [''a'', ''d'', ''b'']
       (TokenizerData.vocab_type example_tokenizer_data)
       (TokenizerData.vocab_size example_tokenizer_data)
       (stop_token_ids example_tokenizer_data)
       (TokenizerData.add_prefix_space example_tokenizer_data) = Inr ([''a'', ''d'', ''b''], 3)"
    "xgr_GrammarCompiler example_xgr ([''a'', ''d'', ''b''], 3) 8
       = Inr (([''a'', ''d'', ''b''], 3), 8)"
    by (simp_all add: example_tokenizer_data_def example_xgr_def)
  have build: "get_compiler example_xgr Map.empty (example_config 8 (Some example_tokenizer_data))
     = (Inr (([''a'', ''d'', ''b''], 3), 8), [''42'' \<mapsto> (([''a'', ''d'', ''b''], 3), 8)])"
    using t cfg td by (simp add: example_str)
  from t first ok ge build h cfg show ?thesis by (simp add: example_str)
qed

text \<open>
  C4, as the claim has it, fails: two calls with a tokenizer that has no \<open>get_vocab\<close>
  both raise, neither returns an entry, nothing is stored, and the extraction runs for
  the one key twice.
\<close>

theorem extraction_repeats_after_raise_counterexample:
  "get_tokenizer_data Map.empty example_tokenizer_no_vocab = (Inl CannotGetVocabulary, Map.empty) \<and>
   tokenizer_calls Map.empty [example_tokenizer_no_vocab] 42 = None \<and>
   extractions Map.empty [example_tokenizer_no_vocab, example_tokenizer_no_vocab] 42 = 2"
proof -
  have h: "py_hash example_tokenizer_no_vocab = 42"
    by (simp add: example_tokenizer_no_vocab_def)
  have g: "get_tokenizer_data Map.empty example_tokenizer_no_vocab
             = (Inl CannotGetVocabulary, Map.empty)"
    using example_extract_no_vocab by (simp add: get_tokenizer_data_def)
  from g h show ?thesis by simp
qed

section \<open>Properties of the block pool\<close>

lemma unreferenced_iff:
  "i \<in> set (unreferenced p) \<longleftrightarrow> i < length (pool_blocks p) \<and> ref_count (pool_blocks p ! i) = 0"
  by (auto simp: unreferenced_def)

lemma oldest_member: "oldest bs best rest \<in> set (best # rest)"
  by (induction rest arbitrary: best) auto

lemma oldest_le_best: "last_accessed (bs ! oldest bs best rest) \<le> last_accessed (bs ! best)"
proof (induction rest arbitrary: best)
  case Nil
  then show ?case by simp
next
  case (Cons i rest)
  show ?case
  proof (cases "last_accessed (bs ! i) < last_accessed (bs ! best)")
    case True
    with Cons.IH [of i] show ?thesis by simp
  next
    case False
    with Cons.IH [of best] show ?thesis by simp
  qed
qed

lemma oldest_least:
  "j \<in> set (best # rest) \<Longrightarrow> last_accessed (bs ! oldest bs best rest) \<le> last_accessed (bs ! j)"
proof (induction rest arbitrary: best)
  case Nil
  then show ?case by simp
next
  case (Cons i rest)
  let ?b = "if last_accessed (bs ! i) < last_accessed (bs ! best) then i else best"
  have step: "oldest bs best (i # rest) = oldest bs ?b rest" by simp
  from Cons.prems consider "j = best" | "j = i" | "j \<in> set rest" by auto
  then show ?case
  proof cases
    case 1
    have "last_accessed (bs ! oldest bs ?b rest) \<le> last_accessed (bs ! ?b)" by (rule oldest_le_best)
    also have "\<dots> \<le> last_accessed (bs ! best)" by simp
    finally show ?thesis using 1 step by simp
  next
    case 2
    have "last_accessed (bs ! oldest bs ?b rest) \<le> last_accessed (bs ! ?b)" by (rule oldest_le_best)
    also have "\<dots> \<le> last_accessed (bs ! i)" by simp
    finally show ?thesis using 2 step by simp
  next
    case 3
    then have "j \<in> set (?b # rest)" by simp
    from Cons.IH [OF this] step show ?thesis by simp
  qed
qed

lemma evict_one_fails_iff:
  "evict_one p = Inl e \<longleftrightarrow> e = NoEvictableBlock \<and> unreferenced p = []"
  by (auto simp: evict_one_def Let_def split: list.splits)

lemma no_unreferenced_iff:
  assumes "\<forall>b \<in> set (pool_blocks p). 0 \<le> ref_count b"
  shows "unreferenced p = [] \<longleftrightarrow> (\<forall>b \<in> set (pool_blocks p). ref_count b \<ge> 1)"
proof
  assume e: "unreferenced p = []"
  show "\<forall>b \<in> set (pool_blocks p). ref_count b \<ge> 1"
  proof
    fix b assume b: "b \<in> set (pool_blocks p)"
    then obtain i where i: "i < length (pool_blocks p)" "pool_blocks p ! i = b"
      by (auto simp: in_set_conv_nth)
    with e unreferenced_iff [of i p] have "ref_count b \<noteq> 0" by auto
    with assms b show "ref_count b \<ge> 1" by force
  qed
next
  assume a: "\<forall>b \<in> set (pool_blocks p). ref_count b \<ge> 1"
  show "unreferenced p = []"
  proof (rule ccontr)
    assume "unreferenced p \<noteq> []"
    then obtain i where "i \<in> set (unreferenced p)" by (cases "unreferenced p") auto
    then have "i < length (pool_blocks p)" "ref_count (pool_blocks p ! i) = 0"
      by (simp_all add: unreferenced_iff)
    with a show False by (metis nth_mem not_one_le_zero)
  qed
qed

text \<open>
  C3. In a pool whose reference counts are counts (none is negative), \<open>evict_one\<close>
  never returns a block whose reference count is greater than 0: it fails, and then with
  NoEvictableBlock, exactly when every block has a reference count of at least 1, and
  otherwise returns a block of the pool with reference count 0 whose last-access time is
  the oldest among all blocks with reference count 0, with no prefix-cache mapping left
  to it.
\<close>

theorem evict_one_only_unreferenced:
  assumes "\<forall>b \<in> set (pool_blocks p). 0 \<le> ref_count b"
  shows "(evict_one p = Inl NoEvictableBlock \<longleftrightarrow>
            (\<forall>b \<in> set (pool_blocks p). ref_count b \<ge> 1)) \<and>
         (\<forall>e. evict_one p = Inl e \<longrightarrow> e = NoEvictableBlock) \<and>
         (\<forall>v p'. evict_one p = Inr (v, p') \<longrightarrow>
            v < length (pool_blocks p') \<and>
            pool_blocks p' = pool_blocks p \<and>
            ref_count (pool_blocks p' ! v) = 0 \<and>
            \<not> ref_count (pool_blocks p' ! v) > 0 \<and>
            (\<forall>j < length (pool_blocks p). ref_count (pool_blocks p ! j) = 0 \<longrightarrow>
               last_accessed (pool_blocks p ! v) \<le> last_accessed (pool_blocks p ! j)) \<and>
            (\<forall>h. prefix_index p' h \<noteq> Some v))"
proof (intro conjI allI impI)
  show "evict_one p = Inl NoEvictableBlock \<longleftrightarrow> (\<forall>b \<in> set (pool_blocks p). ref_count b \<ge> 1)"
    using no_unreferenced_iff [OF assms] evict_one_fails_iff [of p NoEvictableBlock] by simp
next
  fix e assume "evict_one p = Inl e"
  then show "e = NoEvictableBlock" by (simp add: evict_one_fails_iff)
next
  fix v p' assume ev: "evict_one p = Inr (v, p')"
  then obtain i rest where u: "unreferenced p = i # rest"
    and v: "v = oldest (pool_blocks p) i rest"
    and p': "p' = p\<lparr>prefix_index := invalidate (prefix_index p) v\<rparr>"
    by (auto simp: evict_one_def Let_def split: list.splits)
  from oldest_member [of "pool_blocks p" i rest] u v have m: "v \<in> set (unreferenced p)" by simp
  then have r: "v < length (pool_blocks p)" "ref_count (pool_blocks p ! v) = 0"
    by (simp_all add: unreferenced_iff)
  show "pool_blocks p' = pool_blocks p" using p' by simp
  show "v < length (pool_blocks p')" using r p' by simp
  show "ref_count (pool_blocks p' ! v) = 0" using r p' by simp
  show "\<not> ref_count (pool_blocks p' ! v) > 0" using r p' by simp
  show "prefix_index p' h \<noteq> Some v" for h using p' by (simp add: invalidate_def)
  show "last_accessed (pool_blocks p ! v) \<le> last_accessed (pool_blocks p ! j)"
    if "j < length (pool_blocks p)" "ref_count (pool_blocks p ! j) = 0" for j
  proof -
    from that have "j \<in> set (i # rest)" using u unreferenced_iff [of j p] by simp
    from oldest_least [OF this] v show ?thesis by simp
  qed
qed


lemma example_pool_counts:
  "\<forall>b \<in> set (pool_blocks example_pool). 0 \<le> ref_count b"
  by (simp add: example_pool_def example_block_def new_PhysicalTokenBlock_def)

lemma example_unreferenced: "unreferenced example_pool = [1, 2]"
  by (simp add: unreferenced_def example_pool_def example_block_def new_PhysicalTokenBlock_def
        upt_conv_Cons)

lemma example_evict:
  "evict_one example_pool
     = Inr (2, example_pool\<lparr>prefix_index := invalidate (prefix_index example_pool) 2\<rparr>)"
  by (simp add: evict_one_def example_unreferenced)
     (simp add: example_pool_def example_block_def new_PhysicalTokenBlock_def)

theorem evict_one_only_unreferenced_witness:
  "(\<exists>p'. evict_one example_pool = Inr (2, p') \<and>
         ref_count (pool_blocks p' ! 2) = 0 \<and>
         last_accessed (pool_blocks example_pool ! 2) \<le> last_accessed (pool_blocks example_pool ! 1) \<and>
         prefix_index p' 11 \<noteq> Some 2) \<and>
   evict_one example_pool \<noteq> Inl NoEvictableBlock"
proof -
  note t = evict_one_only_unreferenced [OF example_pool_counts]
  have one: "(1::nat) < length (pool_blocks example_pool)"
    "ref_count (pool_blocks example_pool ! 1) = 0"
    by (simp_all add: example_pool_def example_block_def new_PhysicalTokenBlock_def)
  from t example_evict one have
    "ref_count (pool_blocks (example_pool\<lparr>prefix_index := invalidate (prefix_index example_pool) 2\<rparr>) ! 2) = 0"
    "last_accessed (pool_blocks example_pool ! 2) \<le> last_accessed (pool_blocks example_pool ! 1)"
    "prefix_index (example_pool\<lparr>prefix_index := invalidate (prefix_index example_pool) 2\<rparr>) 11 \<noteq> Some 2"
    by blast+
  with example_evict show ?thesis by simp
qed

end
